theory Spec2Isabelle
  imports Main
begin

section \<open>JavaScript values, errors and optional arguments\<close>

text \<open>
  The library is TypeScript running on Node. The values the verified functions can
  receive at run time are modelled by a small universe: the two nullish values,
  booleans, numbers (integral ones), strings, Buffers (their bytes), plain objects and
  functions (both named by a label). A thrown exception is the left injection of a sum.
\<close>

datatype jsval =
    JUndefined
  | JNull
  | JBoolean bool
  | JNumber int
  | JString string
  | JBuffer "char list"
  | JObject string
  | JFunction string

datatype error = TypeError | ConfigurationError | LibraryError string

text \<open>
  An optional parameter \<open>p?: T\<close> receives either nothing (\<open>undefined\<close>), \<open>null\<close> or
  a value. A default initialiser \<open>p: T = d\<close> replaces \<open>undefined\<close> only.
\<close>

datatype 'a arg = Omitted | Null | Given 'a

fun typeof :: "jsval \<Rightarrow> string" where
  "typeof JUndefined = ''undefined''"
| "typeof JNull = ''object''"
| "typeof (JBoolean b) = ''boolean''"
| "typeof (JNumber n) = ''number''"
| "typeof (JString s) = ''string''"
| "typeof (JBuffer b) = ''object''"
| "typeof (JObject l) = ''object''"
| "typeof (JFunction l) = ''function''"

fun truthy :: "jsval \<Rightarrow> bool" where
  "truthy JUndefined = False"
| "truthy JNull = False"
| "truthy (JBoolean b) = b"
| "truthy (JNumber n) = (n \<noteq> 0)"
| "truthy (JString s) = (s \<noteq> [])"
| "truthy (JBuffer b) = True"
| "truthy (JObject l) = True"
| "truthy (JFunction l) = True"

text \<open>
  \<open>data.toString()\<close>: reading the property \<open>toString\<close> of \<open>undefined\<close> or \<open>null\<close>
  throws a TypeError, and a string returns itself. A Buffer decodes its bytes as UTF-8,
  which replaces what it cannot decode and throws nothing. For every other value the
  call runs the method the value has under that name: it throws a TypeError when there
  is none to call (\<open>Object.create(null)\<close>), and whatever the method throws when it
  throws. The decoder and the outcome of these calls belong to the host and are
  parameters here.
\<close>

record host =
  decode_utf8 :: "char list \<Rightarrow> string"
  call_toString :: "jsval \<Rightarrow> error + string"

fun toString :: "host \<Rightarrow> jsval \<Rightarrow> error + string" where
  "toString host JUndefined = Inl TypeError"
| "toString host JNull = Inl TypeError"
| "toString host (JString s) = Inr s"
| "toString host (JBuffer b) = Inr (decode_utf8 host b)"
| "toString host v = call_toString host v"

text \<open>Optional chaining \<open>o?.f\<close>, nullish coalescing \<open>a ?? b\<close> and \<open>a || b\<close> on option-valued
  fields (\<open>None\<close> is \<open>undefined\<close>; the values concerned are objects, always truthy).\<close>

definition chain :: "'a option \<Rightarrow> ('a \<Rightarrow> 'b option) \<Rightarrow> 'b option" where
  "chain obj f = (case obj of None \<Rightarrow> None | Some x \<Rightarrow> f x)"

definition coalesce :: "'a option \<Rightarrow> 'a option \<Rightarrow> 'a option" where
  "coalesce a b = (case a of Some x \<Rightarrow> Some x | None \<Rightarrow> b)"

section \<open>Regular expressions\<close>

text \<open>
  All five patterns of the source are of the form \<open>/^body$/\<close> without alternation at
  the top, without the \<open>m\<close> flag and without back references or look-around. The
  body is an abstract syntax tree: a pattern character, a class of ranges \<open>[a-fA-F0-9]\<close>,
  \<open>\d\<close>, sequence, alternative \<open>a|b\<close>, \<open>a?\<close> and the bounded quantifier \<open>a{lo,hi}\<close>.
  Groups, capturing or not, do not change whether a string matches and have no
  constructor.

  A string is the list of its characters, and a character of the model is a code unit
  from 0 to 255. The units above that range are left out: no pattern names one, and
  case folding maps none of them to a character of a pattern.
\<close>

datatype rx =
    Eps
  | Chr char
  | Cls "(char \<times> char) list"
  | Digit
  | Seq rx rx
  | Alt rx rx
  | Opt rx
  | Rep nat nat rx

record regexp =
  body :: rx
  ignoreCase :: bool

definition lit :: "char \<Rightarrow> char \<times> char" where
  "lit c = (c, c)"

definition str :: "string \<Rightarrow> rx" where
  "str cs = foldr (\<lambda>c r. Seq (Chr c) r) cs Eps"

definition seqs :: "rx list \<Rightarrow> rx" where
  "seqs rs = foldr Seq rs Eps"

definition code :: "char \<Rightarrow> nat" where
  "code c = of_char c"

definition in_range :: "char \<Rightarrow> char \<Rightarrow> char \<Rightarrow> bool" where
  "in_range lo hi c \<longleftrightarrow> code lo \<le> code c \<and> code c \<le> code hi"

text \<open>
  Case folding of the \<open>i\<close> flag (without \<open>u\<close>): a code unit is canonicalised to its upper
  case, except that a non-ASCII unit is never mapped to an ASCII one. Every character
  of the patterns is ASCII, so only the folding of \<open>a\<close> to \<open>z\<close> can make two characters
  meet; other characters are left alone.
\<close>

definition toUpperCase :: "char \<Rightarrow> char" where
  "toUpperCase c = (if in_range CHR ''a'' CHR ''z'' c then char_of (code c - 32) else c)"

definition toLowerCase :: "char \<Rightarrow> char" where
  "toLowerCase c = (if in_range CHR ''A'' CHR ''Z'' c then char_of (code c + 32) else c)"

definition canonicalize :: "bool \<Rightarrow> char \<Rightarrow> char" where
  "canonicalize ic c = (if ic then toUpperCase c else c)"

text \<open>A class matches \<open>c\<close> when one of its members has the canonical form of \<open>c\<close>
  (\<open>class_member\<close> is membership proper). The matcher tries the members that can have
  it: \<open>c\<close> itself and, under \<open>i\<close>, its upper and lower case.\<close>

definition class_member :: "(char \<times> char) list \<Rightarrow> char \<Rightarrow> bool" where
  "class_member rs a = list_ex (\<lambda>(lo, hi). in_range lo hi a) rs"

definition class_has :: "bool \<Rightarrow> (char \<times> char) list \<Rightarrow> char \<Rightarrow> bool" where
  "class_has ic rs c =
     list_ex (\<lambda>(lo, hi). in_range lo hi c \<or>
        (ic \<and> (in_range lo hi (toUpperCase c) \<or> in_range lo hi (toLowerCase c)))) rs"

text \<open>
  The matcher is the backtracking one of the language definition, with the
  continuation kept as the list of the patterns still to match: an atom consumes one
  character and goes on with the continuation, an alternative tries its left side
  first and its right side when that fails, and a greedy quantifier tries one more
  iteration before it tries to go on. The empty continuation is the end of the
  pattern, where \<open>$\<close> (without \<open>m\<close>) accepts at the end of the input only.
\<close>

fun work :: "rx \<Rightarrow> nat" where
  "work Eps = 0"
| "work (Chr c) = 1"
| "work (Cls rs) = 1"
| "work Digit = 1"
| "work (Seq a b) = 2 + work a + work b"
| "work (Alt a b) = 1 + work a + work b"
| "work (Opt a) = 1 + work a"
| "work (Rep lo hi a) = 1 + hi * (2 + work a)"

function m :: "bool \<Rightarrow> rx \<Rightarrow> rx list \<Rightarrow> string \<Rightarrow> bool" where
  "m ic Eps [] s = (s = [])"
| "m ic Eps (r # ks) s = m ic r ks s"
| "m ic (Chr c) ks s =
     (case s of [] \<Rightarrow> False
      | x # xs \<Rightarrow> if canonicalize ic x = canonicalize ic c then m ic Eps ks xs else False)"
| "m ic (Cls rs) ks s =
     (case s of [] \<Rightarrow> False | x # xs \<Rightarrow> if class_has ic rs x then m ic Eps ks xs else False)"
| "m ic Digit ks s =
     (case s of [] \<Rightarrow> False
      | x # xs \<Rightarrow> if in_range CHR ''0'' CHR ''9'' x then m ic Eps ks xs else False)"
| "m ic (Seq a b) ks s = m ic a (b # ks) s"
| "m ic (Alt a b) ks s = (if m ic a ks s then True else m ic b ks s)"
| "m ic (Opt a) ks s = (if m ic a ks s then True else m ic Eps ks s)"
| "m ic (Rep lo 0 a) ks s = (if lo = 0 then m ic Eps ks s else False)"
| "m ic (Rep lo (Suc hi) a) ks s =
     (if lo \<noteq> 0 then m ic a (Rep (lo - 1) hi a # ks) s
      else if m ic a (Rep 0 hi a # ks) s then True
      else m ic Eps ks s)"
  by pat_completeness auto
termination
  by (relation "measure (\<lambda>(ic, r, ks, s). work r + sum_list (map (\<lambda>k. Suc (work k)) ks))") auto

text \<open>\<open>pattern.test(s)\<close> for \<open>/^body$/\<close>: the match starts at index 0 (\<open>^\<close>) with the
  empty continuation.\<close>

definition test :: "regexp \<Rightarrow> string \<Rightarrow> bool" where
  "test p s = m (ignoreCase p) (body p) [] s"

section \<open>The format classifiers\<close>

text \<open>\<open>/^[$]2[abxy]?[$](?:0[4-9]|[12][0-9]|3[01])[$][./0-9a-zA-Z]{53}$/\<close>\<close>

definition bcryptHashPattern :: regexp where
  "bcryptHashPattern = \<lparr> body = seqs
     [ Cls [lit CHR ''$''],
       Chr CHR ''2'',
       Opt (Cls [lit CHR ''a'', lit CHR ''b'', lit CHR ''x'', lit CHR ''y'']),
       Cls [lit CHR ''$''],
       Alt (Seq (Chr CHR ''0'') (Cls [(CHR ''4'', CHR ''9'')]))
        (Alt (Seq (Cls [lit CHR ''1'', lit CHR ''2'']) (Cls [(CHR ''0'', CHR ''9'')]))
             (Seq (Chr CHR ''3'') (Cls [lit CHR ''0'', lit CHR ''1'']))),
       Cls [lit CHR ''$''],
       Rep 53 53 (Cls [lit CHR ''.'', lit CHR ''/'', (CHR ''0'', CHR ''9''),
                       (CHR ''a'', CHR ''z''), (CHR ''A'', CHR ''Z'')]) ],
     ignoreCase = False \<rparr>"

definition isBcrypt :: "host \<Rightarrow> jsval \<Rightarrow> error + bool" where
  "isBcrypt host data =
     (case toString host data of Inl e \<Rightarrow> Inl e | Inr s \<Rightarrow> Inr (test bcryptHashPattern s))"

text \<open>\<open>/^\$argon2id\$v=(?:16|19)\$m=\d{1,10},t=\d{1,10},p=\d{1,3}(?:,keyid=[A-Za-z0-9+/]{0,11}(?:,data=[A-Za-z0-9+/]{0,43})?)?\$[A-Za-z0-9+/]{11,64}\$[A-Za-z0-9+/]{16,86}$/i\<close>\<close>

definition base64_class :: rx where
  "base64_class = Cls [(CHR ''A'', CHR ''Z''), (CHR ''a'', CHR ''z''), (CHR ''0'', CHR ''9''),
                       lit CHR ''+'', lit CHR ''/'']"

definition argon2HashPattern :: regexp where
  "argon2HashPattern = \<lparr> body = seqs
     [ str ''$argon2id$v='',
       Alt (str ''16'') (str ''19''),
       str ''$m='', Rep 1 10 Digit,
       str '',t='', Rep 1 10 Digit,
       str '',p='', Rep 1 3 Digit,
       Opt (seqs [ str '',keyid='', Rep 0 11 base64_class,
                   Opt (seqs [ str '',data='', Rep 0 43 base64_class ]) ]),
       Chr CHR ''$'', Rep 11 64 base64_class,
       Chr CHR ''$'', Rep 16 86 base64_class ],
     ignoreCase = True \<rparr>"

definition isArgon2 :: "host \<Rightarrow> jsval \<Rightarrow> error + bool" where
  "isArgon2 host data =
     (case toString host data of Inl e \<Rightarrow> Inl e | Inr s \<Rightarrow> Inr (test argon2HashPattern s))"

text \<open>\<open>/^[a-fA-F0-9]{32}$/\<close>\<close>

definition md5HashPattern :: regexp where
  "md5HashPattern = \<lparr> body =
       Rep 32 32 (Cls [(CHR ''a'', CHR ''f''), (CHR ''A'', CHR ''F''), (CHR ''0'', CHR ''9'')]),
     ignoreCase = False \<rparr>"

definition isMD5 :: "host \<Rightarrow> jsval \<Rightarrow> error + bool" where
  "isMD5 host data =
     (case toString host data of Inl e \<Rightarrow> Inl e | Inr s \<Rightarrow> Inr (test md5HashPattern s))"

text \<open>\<open>/^[A-Fa-f0-9]{40}$/\<close> and \<open>/^[A-Fa-f0-9]{64}$/\<close>\<close>

definition sha1HashPattern :: regexp where
  "sha1HashPattern = \<lparr> body =
       Rep 40 40 (Cls [(CHR ''A'', CHR ''F''), (CHR ''a'', CHR ''f''), (CHR ''0'', CHR ''9'')]),
     ignoreCase = False \<rparr>"

definition isSHA1 :: "host \<Rightarrow> jsval \<Rightarrow> error + bool" where
  "isSHA1 host data =
     (case toString host data of Inl e \<Rightarrow> Inl e | Inr s \<Rightarrow> Inr (test sha1HashPattern s))"

definition sha256HashPattern :: regexp where
  "sha256HashPattern = \<lparr> body =
       Rep 64 64 (Cls [(CHR ''A'', CHR ''F''), (CHR ''a'', CHR ''f''), (CHR ''0'', CHR ''9'')]),
     ignoreCase = False \<rparr>"

definition isSHA256 :: "host \<Rightarrow> jsval \<Rightarrow> error + bool" where
  "isSHA256 host data =
     (case toString host data of Inl e \<Rightarrow> Inl e | Inr s \<Rightarrow> Inr (test sha256HashPattern s))"

section \<open>The patterns of the specification\<close>

text \<open>
  What it means for a string to match a pattern is the language of the pattern: the
  strings built from one character per atom, concatenation for sequence, union for
  alternative, and between \<open>lo\<close> and \<open>hi\<close> copies for a bounded quantifier.
\<close>

definition cat :: "string set \<Rightarrow> string set \<Rightarrow> string set" where
  "cat A B = {u @ v | u v. u \<in> A \<and> v \<in> B}"

fun lpow :: "nat \<Rightarrow> string set \<Rightarrow> string set" where
  "lpow 0 L = {[]}"
| "lpow (Suc n) L = cat L (lpow n L)"

fun lang :: "bool \<Rightarrow> rx \<Rightarrow> string set" where
  "lang ic Eps = {[]}"
| "lang ic (Chr c) = {[x] | x. canonicalize ic x = canonicalize ic c}"
| "lang ic (Cls rs) =
     {[x] | x. \<exists>a. class_member rs a \<and> canonicalize ic a = canonicalize ic x}"
| "lang ic Digit = {[x] | x. in_range CHR ''0'' CHR ''9'' x}"
| "lang ic (Seq a b) = cat (lang ic a) (lang ic b)"
| "lang ic (Alt a b) = lang ic a \<union> lang ic b"
| "lang ic (Opt a) = insert [] (lang ic a)"
| "lang ic (Rep lo hi a) = {u. \<exists>n. lo \<le> n \<and> n \<le> hi \<and> u \<in> lpow n (lang ic a)}"

text \<open>The language of a continuation.\<close>

fun klang :: "bool \<Rightarrow> rx list \<Rightarrow> string set" where
  "klang ic [] = {[]}"
| "klang ic (r # ks) = cat (lang ic r) (klang ic ks)"

definition matches :: "regexp \<Rightarrow> string \<Rightarrow> bool" where
  "matches p s \<longleftrightarrow> s \<in> lang (ignoreCase p) (body p)"

text \<open>The format table of the specification, pattern by pattern as it is printed there.
  bcrypt: \<open>^\$2[abxy]?\$(0[4-9]|[12][0-9]|3[01])\$[./0-9A-Za-z]{53}$\<close>\<close>

definition spec_bcrypt :: regexp where
  "spec_bcrypt = \<lparr> body = seqs
     [ Chr CHR ''$'', Chr CHR ''2'',
       Opt (Cls [lit CHR ''a'', lit CHR ''b'', lit CHR ''x'', lit CHR ''y'']),
       Chr CHR ''$'',
       Alt (Seq (Chr CHR ''0'') (Cls [(CHR ''4'', CHR ''9'')]))
        (Alt (Seq (Cls [lit CHR ''1'', lit CHR ''2'']) (Cls [(CHR ''0'', CHR ''9'')]))
             (Seq (Chr CHR ''3'') (Cls [lit CHR ''0'', lit CHR ''1'']))),
       Chr CHR ''$'',
       Rep 53 53 (Cls [lit CHR ''.'', lit CHR ''/'', (CHR ''0'', CHR ''9''),
                       (CHR ''A'', CHR ''Z''), (CHR ''a'', CHR ''z'')]) ],
     ignoreCase = False \<rparr>"

text \<open>Argon2 (PHC), case-insensitive:
  \<open>^\$argon2id\$v=(16|19)\$m=\d{1,10},t=\d{1,10},p=\d{1,3}(,keyid=[A-Za-z0-9+/]{0,11}(,data=[A-Za-z0-9+/]{0,43})?)?\$[A-Za-z0-9+/]{11,64}\$[A-Za-z0-9+/]{16,86}$\<close>\<close>

definition spec_argon2 :: regexp where
  "spec_argon2 = \<lparr> body = seqs
     [ str ''$argon2id$v='', Alt (str ''16'') (str ''19''),
       str ''$m='', Rep 1 10 Digit, str '',t='', Rep 1 10 Digit, str '',p='', Rep 1 3 Digit,
       Opt (seqs [ str '',keyid='', Rep 0 11 base64_class,
                   Opt (seqs [ str '',data='', Rep 0 43 base64_class ]) ]),
       Chr CHR ''$'', Rep 11 64 base64_class,
       Chr CHR ''$'', Rep 16 86 base64_class ],
     ignoreCase = True \<rparr>"

text \<open>MD5 \<open>^[a-fA-F0-9]{32}$\<close>, SHA-1 \<open>^[A-Fa-f0-9]{40}$\<close>, SHA-256 \<open>^[A-Fa-f0-9]{64}$\<close>;
  in words: exactly 32, 40 and 64 hexadecimal characters.\<close>

definition spec_md5 :: regexp where
  "spec_md5 = \<lparr> body =
       Rep 32 32 (Cls [(CHR ''a'', CHR ''f''), (CHR ''A'', CHR ''F''), (CHR ''0'', CHR ''9'')]),
     ignoreCase = False \<rparr>"

definition spec_sha1 :: regexp where
  "spec_sha1 = \<lparr> body =
       Rep 40 40 (Cls [(CHR ''A'', CHR ''F''), (CHR ''a'', CHR ''f''), (CHR ''0'', CHR ''9'')]),
     ignoreCase = False \<rparr>"

definition spec_sha256 :: regexp where
  "spec_sha256 = \<lparr> body =
       Rep 64 64 (Cls [(CHR ''A'', CHR ''F''), (CHR ''a'', CHR ''f''), (CHR ''0'', CHR ''9'')]),
     ignoreCase = False \<rparr>"

definition is_hex :: "char \<Rightarrow> bool" where
  "is_hex c \<longleftrightarrow> c \<in> set ''0123456789abcdefABCDEF''"

definition hex_of_length :: "nat \<Rightarrow> string \<Rightarrow> bool" where
  "hex_of_length n s \<longleftrightarrow> length s = n \<and> list_all is_hex s"

section \<open>The IsHashed validator and its dispatcher\<close>

text \<open>
  Reading \<open>obj[key]\<close> from an object literal: the literal's own properties first, then
  the properties every object inherits from \<open>Object.prototype\<close>, else \<open>undefined\<close>.
\<close>

definition Object_prototype :: "(string \<times> jsval) list" where
  "Object_prototype =
     [ (''constructor'', JFunction ''Object''),
       (''__defineGetter__'', JFunction ''__defineGetter__''),
       (''__defineSetter__'', JFunction ''__defineSetter__''),
       (''hasOwnProperty'', JFunction ''hasOwnProperty''),
       (''__lookupGetter__'', JFunction ''__lookupGetter__''),
       (''__lookupSetter__'', JFunction ''__lookupSetter__''),
       (''isPrototypeOf'', JFunction ''isPrototypeOf''),
       (''propertyIsEnumerable'', JFunction ''propertyIsEnumerable''),
       (''toString'', JFunction ''toString''),
       (''valueOf'', JFunction ''valueOf''),
       (''__proto__'', JObject ''Object.prototype''),
       (''toLocaleString'', JFunction ''toLocaleString'') ]"

definition get_property :: "(string \<times> jsval) list \<Rightarrow> string \<Rightarrow> jsval" where
  "get_property own key =
     (case map_of own key of
        Some v \<Rightarrow> v
      | None \<Rightarrow> (case map_of Object_prototype key of Some v \<Rightarrow> v | None \<Rightarrow> JUndefined))"

text \<open>The object literal evaluates its five property values in order before the lookup;
  an exception of one of them leaves the function.\<close>

definition mapValidationByHashType :: "host \<Rightarrow> string \<Rightarrow> jsval \<Rightarrow> error + jsval" where
  "mapValidationByHashType host type value =
     (case isBcrypt host value of Inl e \<Rightarrow> Inl e | Inr bcrypt \<Rightarrow>
      case isArgon2 host value of Inl e \<Rightarrow> Inl e | Inr argon2 \<Rightarrow>
      case isMD5 host value of Inl e \<Rightarrow> Inl e | Inr md5 \<Rightarrow>
      case isSHA1 host value of Inl e \<Rightarrow> Inl e | Inr sha1 \<Rightarrow>
      case isSHA256 host value of Inl e \<Rightarrow> Inl e | Inr sha256 \<Rightarrow>
        Inr (get_property
          [ (''bcrypt'', JBoolean bcrypt),
            (''argon2'', JBoolean argon2),
            (''md5'', JBoolean md5),
            (''sha1'', JBoolean sha1),
            (''sha256'', JBoolean sha256),
            (''default'', JBoolean False) ] type))"

text \<open>The decorator option \<open>type\<close> is \<open>undefined\<close> (\<open>None\<close>) or a string; \<open>!type\<close> holds
  for \<open>undefined\<close> and for the empty string.\<close>

definition validate :: "host \<Rightarrow> string option \<Rightarrow> jsval \<Rightarrow> error + jsval" where
  "validate host type value =
     (if typeof value \<noteq> ''string'' then Inr (JBoolean False)
      else case (case type of None \<Rightarrow> None | Some t \<Rightarrow> if t = [] then None else Some t) of
        None \<Rightarrow>
          (case isBcrypt host value of
             Inl e \<Rightarrow> Inl e
           | Inr b \<Rightarrow> if b then Inr (JBoolean True)
                      else (case isArgon2 host value of Inl e \<Rightarrow> Inl e | Inr a \<Rightarrow> Inr (JBoolean a)))
      | Some t \<Rightarrow> mapValidationByHashType host t value)"

section \<open>The strategy holder \<open>HashBin\<close>\<close>

text \<open>
  Objects live in a heap: the object at address \<open>a\<close> was created by the class
  \<open>heap ! a\<close>, and \<open>new C()\<close> allocates the next address. The holder's private field is
  \<open>undefined\<close> (\<open>None\<close>) until it is assigned. \<open>setInstance\<close> receives a reference to an
  existing object or a constructor function (\<open>typeof strategy === 'function'\<close>).
\<close>

datatype 'c strategy = Instance nat | Constructor 'c

record 'c world =
  heap :: "'c list"
  strategyInstance :: "nat option"

definition HashBin_new :: "'c list \<Rightarrow> 'c world" where
  "HashBin_new h = \<lparr> heap = h, strategyInstance = None \<rparr>"

fun setInstance :: "'c strategy \<Rightarrow> 'c world \<Rightarrow> 'c world" where
  "setInstance (Constructor c) w =
     w \<lparr> heap := heap w @ [c], strategyInstance := Some (length (heap w)) \<rparr>"
| "setInstance (Instance a) w = w \<lparr> strategyInstance := Some a \<rparr>"

definition getInstance :: "'c world \<Rightarrow> error + nat option" where
  "getInstance w = Inr (strategyInstance w)"

section \<open>The strategies\<close>

text \<open>
  The cryptographic work is done by the libraries \<open>bcrypt\<close>, \<open>argon2\<close> and Node's
  \<open>crypto\<close>; the services choose the arguments of the library calls. Each library
  function is a parameter, so a result of a service is the result of the library at the
  arguments the service has chosen. A random choice of the library (a generated salt) is
  part of the parameter.
\<close>

subsection \<open>\<open>BcryptService\<close>\<close>

record BcryptOptions =
  bcrypt_salt :: "string option"
  bcrypt_rounds :: "int option"

record ('d, 'r) bcrypt_library =
  genSaltSync :: "int option \<Rightarrow> string"
  bcrypt_hash :: "'d \<Rightarrow> string \<Rightarrow> 'r"

text \<open>\<open>options?.salt\<close> and \<open>options?.rounds\<close>, and their truthiness: a non-empty string,
  a number other than 0 (numbers are integral here). Under the first guard of
  \<open>getSalt\<close> the salt is a string, so the case \<open>None\<close> there is never taken.\<close>

fun options_salt :: "BcryptOptions arg \<Rightarrow> string option" where
  "options_salt (Given opts) = bcrypt_salt opts"
| "options_salt _ = None"

fun options_rounds :: "BcryptOptions arg \<Rightarrow> int option" where
  "options_rounds (Given opts) = bcrypt_rounds opts"
| "options_rounds _ = None"

definition truthy_string :: "string option \<Rightarrow> bool" where
  "truthy_string v = (case v of None \<Rightarrow> False | Some s \<Rightarrow> s \<noteq> [])"

definition truthy_number :: "int option \<Rightarrow> bool" where
  "truthy_number v = (case v of None \<Rightarrow> False | Some n \<Rightarrow> n \<noteq> 0)"

definition getSalt :: "('d, 'r) bcrypt_library \<Rightarrow> BcryptOptions arg \<Rightarrow> string" where
  "getSalt bcrypt options =
     (if truthy_string (options_salt options)
        then (case options_salt options of Some s \<Rightarrow> s | None \<Rightarrow> [])
      else if \<not> truthy_string (options_salt options) \<and> truthy_number (options_rounds options)
        then genSaltSync bcrypt (options_rounds options)
      else genSaltSync bcrypt None)"

definition BcryptService_hash :: "('d, 'r) bcrypt_library \<Rightarrow> 'd \<Rightarrow> BcryptOptions arg \<Rightarrow> 'r" where
  "BcryptService_hash bcrypt data options = bcrypt_hash bcrypt data (getSalt bcrypt options)"

subsection \<open>\<open>Argon2Service\<close>\<close>

text \<open>The native option object of the library is passed through; it is a list of named
  numbers, \<open>{}\<close> the empty one. The library's \<open>hash(data, options?)\<close> takes the options
  or nothing (\<open>None\<close>).\<close>

type_synonym Argon2Options = "(string \<times> int) list"

record Argon2Service =
  argon2_options :: "Argon2Options option"

definition Argon2Service_new :: "Argon2Options option \<Rightarrow> Argon2Service" where
  "Argon2Service_new options = \<lparr> argon2_options = options \<rparr>"

definition Argon2Service_hash ::
  "('d \<Rightarrow> Argon2Options option \<Rightarrow> 'r) \<Rightarrow> Argon2Service \<Rightarrow> 'd \<Rightarrow> Argon2Options arg \<Rightarrow> 'r" where
  "Argon2Service_hash argon2_hash this data options_arg =
     (let options = (case options_arg of Omitted \<Rightarrow> Given [] | a \<Rightarrow> a) in
      case options of
        Given opts \<Rightarrow> argon2_hash data (Some opts)
      | _ \<Rightarrow> (case argon2_options this of
                Some own \<Rightarrow> argon2_hash data (Some own)
              | None \<Rightarrow> argon2_hash data None))"

subsection \<open>\<open>Pbkdf2Strategy\<close>\<close>

record 's Pbkdf2Options =
  salt :: "'s option"
  iterations :: "int option"
  keylen :: "int option"
  digest :: "string option"

record 's Pbkdf2Strategy =
  pbkdf2_options :: "'s Pbkdf2Options option"

text \<open>The constructor; \<open>random16\<close> is the value of \<open>randomBytes(16)\<close>.\<close>

definition Pbkdf2Strategy_new :: "'s \<Rightarrow> 's Pbkdf2Options option \<Rightarrow> 's Pbkdf2Strategy" where
  "Pbkdf2Strategy_new random16 options =
     \<lparr> pbkdf2_options =
         (case options of
            None \<Rightarrow> Some \<lparr> salt = Some random16, iterations = Some 1000, keylen = Some 64,
                           digest = Some ''sha256'' \<rparr>
          | Some opts \<Rightarrow> Some opts) \<rparr>"

definition Pbkdf2Strategy_getFinalOptions :: "'s Pbkdf2Strategy \<Rightarrow> 's Pbkdf2Options \<Rightarrow> 's Pbkdf2Options" where
  "Pbkdf2Strategy_getFinalOptions this options =
     \<lparr> salt = coalesce (salt options) (chain (pbkdf2_options this) salt),
       iterations = coalesce (iterations options) (chain (pbkdf2_options this) iterations),
       keylen = coalesce (keylen options) (chain (pbkdf2_options this) keylen),
       digest = coalesce (digest options) (chain (pbkdf2_options this) digest) \<rparr>"

definition empty_options :: "'s Pbkdf2Options" where
  "empty_options = \<lparr> salt = None, iterations = None, keylen = None, digest = None \<rparr>"

text \<open>The option object \<open>{ salt: s }\<close>.\<close>

definition salt_only :: "'s \<Rightarrow> 's Pbkdf2Options" where
  "salt_only s = \<lparr> salt = Some s, iterations = None, keylen = None, digest = None \<rparr>"

text \<open>
  \<open>crypto.pbkdf2(data, salt, iterations, keylen, digest, callback)\<close> yields the derived
  key or an error; an argument may be \<open>undefined\<close> when no layer supplied it.
  \<open>base64\<close> is \<open>Buffer.toString('base64')\<close>.
\<close>

type_synonym ('d, 's) pbkdf2_primitive =
  "'d \<Rightarrow> 's option \<Rightarrow> int option \<Rightarrow> int option \<Rightarrow> string option \<Rightarrow> error + char list"

definition Pbkdf2Strategy_hash ::
  "('d, 's) pbkdf2_primitive \<Rightarrow> (char list \<Rightarrow> string) \<Rightarrow> 's Pbkdf2Strategy \<Rightarrow> 'd
     \<Rightarrow> 's Pbkdf2Options arg \<Rightarrow> error + string" where
  "Pbkdf2Strategy_hash pbkdf2 base64 this data options_arg =
     (case (case options_arg of Omitted \<Rightarrow> Given empty_options | a \<Rightarrow> a) of
        Given options \<Rightarrow>
          (let final = Pbkdf2Strategy_getFinalOptions this options in
           case pbkdf2 data (salt final) (iterations final) (keylen final) (digest final) of
             Inl e \<Rightarrow> Inl e
           | Inr key \<Rightarrow> Inr (base64 key))
      | _ \<Rightarrow> Inl TypeError)"

text \<open>The second argument of \<open>compare\<close> is a string or a Buffer;
  \<open>hashed.toString('base64')\<close> is the string itself or the encoding of the bytes.\<close>

datatype hashed = Text string | Bytes "char list"

fun toString_base64 :: "(char list \<Rightarrow> string) \<Rightarrow> hashed \<Rightarrow> string" where
  "toString_base64 base64 (Text s) = s"
| "toString_base64 base64 (Bytes b) = base64 b"

definition Pbkdf2Strategy_compare ::
  "('d, 's) pbkdf2_primitive \<Rightarrow> (char list \<Rightarrow> string) \<Rightarrow> 's Pbkdf2Strategy \<Rightarrow> 'd
     \<Rightarrow> hashed \<Rightarrow> 's Pbkdf2Options arg \<Rightarrow> error + bool" where
  "Pbkdf2Strategy_compare pbkdf2 base64 this data hashed_arg options_arg =
     (case (case options_arg of
              Omitted \<Rightarrow> (case pbkdf2_options this of Some own \<Rightarrow> Given own
                                                      | None \<Rightarrow> Given empty_options)
            | a \<Rightarrow> a) of
        Given options \<Rightarrow>
          (let final = Pbkdf2Strategy_getFinalOptions this options in
           case Pbkdf2Strategy_hash pbkdf2 base64 this data
                  (Given \<lparr> salt = salt final, iterations = iterations final,
                           keylen = keylen final, digest = digest final \<rparr>) of
             Inl e \<Rightarrow> Inl e
           | Inr hashedData \<Rightarrow> Inr (hashedData = toString_base64 base64 hashed_arg))
      | _ \<Rightarrow> Inl TypeError)"

subsection \<open>\<open>RsaService\<close>\<close>

record KeyEncoding =
  encoding_type :: string
  format :: string

record RsaPemOptions =
  modulusLength :: "int option"
  publicKeyEncoding :: "KeyEncoding option"
  privateKeyEncoding :: "KeyEncoding option"

record RsaService =
  rsa_options :: "RsaPemOptions option"

text \<open>\<open>options.publicKeyEncoding\<close> is read without optional chaining: with \<open>options\<close>
  \<open>undefined\<close> or \<open>null\<close> the read throws a TypeError.\<close>

definition RsaService_getFinalOptions :: "RsaService \<Rightarrow> RsaPemOptions arg \<Rightarrow> error + RsaPemOptions" where
  "RsaService_getFinalOptions this options_arg =
     (case options_arg of
        Given options \<Rightarrow> Inr
          \<lparr> modulusLength = Some 2048,
            publicKeyEncoding =
              coalesce (publicKeyEncoding options)
                (coalesce (chain (rsa_options this) publicKeyEncoding)
                   (Some \<lparr> encoding_type = ''spki'', format = ''pem'' \<rparr>)),
            privateKeyEncoding =
              coalesce (privateKeyEncoding options)
                (coalesce (chain (rsa_options this) privateKeyEncoding)
                   (Some \<lparr> encoding_type = ''pkcs8'', format = ''pem'' \<rparr>)) \<rparr>
      | _ \<Rightarrow> Inl TypeError)"

text \<open>\<open>generateKeyPairSync\<close> is the library's key generation, called with \<open>'rsa'\<close> and
  the three final options; it returns the key pair or throws.\<close>

definition generateKeyPair ::
  "(string \<Rightarrow> RsaPemOptions \<Rightarrow> error + 'k) \<Rightarrow> RsaService \<Rightarrow> RsaPemOptions arg \<Rightarrow> error + 'k" where
  "generateKeyPair generateKeyPairSync this options =
     (case RsaService_getFinalOptions this options of
        Inl e \<Rightarrow> Inl e
      | Inr final \<Rightarrow> generateKeyPairSync ''rsa''
          \<lparr> modulusLength = modulusLength final,
            publicKeyEncoding = publicKeyEncoding final,
            privateKeyEncoding = privateKeyEncoding final \<rparr>)"

section \<open>Stand-ins for the host and the libraries\<close>

text \<open>
  Where a property is evaluated on an example, the host decodes a Buffer of ASCII bytes
  to its characters, a boolean and a plain object have their built-in texts, an integer
  is printed in decimal (as the language prints one below \<open>10^21\<close>), a function shows
  its name, and the object named \<open>Object.create(null)\<close> has no method \<open>toString\<close>.
  The libraries are replaced by functions that return the arguments they were called with.
\<close>

fun decimal :: "nat \<Rightarrow> string" where
  "decimal n = (if n < 10 then [char_of (48 + n)]
                else decimal (n div 10) @ [char_of (48 + n mod 10)])"

definition plain_host :: host where
  "plain_host =
     \<lparr> decode_utf8 = (\<lambda>b. b),
       call_toString = (\<lambda>v. case v of
           JBoolean b \<Rightarrow> Inr (if b then ''true'' else ''false'')
         | JNumber n \<Rightarrow> Inr (if n < 0 then ''-'' @ decimal (nat (- n)) else decimal (nat n))
         | JObject l \<Rightarrow> (if l = ''Object.create(null)'' then Inl TypeError
                        else Inr ''[object Object]'')
         | JFunction l \<Rightarrow> Inr (''function '' @ l @ ''() { [native code] }'')
         | _ \<Rightarrow> Inl TypeError) \<rparr>"

definition recording_bcrypt :: "(string, string \<times> string) bcrypt_library" where
  "recording_bcrypt =
     \<lparr> genSaltSync = (\<lambda>rounds. case rounds of None \<Rightarrow> ''generated-default''
                                              | Some n \<Rightarrow> ''generated-rounds''),
       bcrypt_hash = (\<lambda>data salt_value. (data, salt_value)) \<rparr>"

definition recording_argon2 :: "string \<Rightarrow> Argon2Options option \<Rightarrow> string \<times> Argon2Options option" where
  "recording_argon2 data options = (data, options)"

definition recording_pbkdf2 :: "(string, string) pbkdf2_primitive" where
  "recording_pbkdf2 data s i k d =
     (case s of None \<Rightarrow> Inl TypeError | Some salt_value \<Rightarrow> Inr (data @ ''|'' @ salt_value))"

definition identity_encoding :: "char list \<Rightarrow> string" where
  "identity_encoding b = b"

section \<open>Characters, ranges and classes\<close>

lemma code_eq_iff: "code x = code y \<longleftrightarrow> x = y"
  by (simp add: code_def)

lemma in_range_lit: "in_range c c x \<longleftrightarrow> x = c"
  by (auto simp: in_range_def code_eq_iff[symmetric])

lemma code_char_of: "n < 256 \<Longrightarrow> code (char_of n) = n"
  by (simp add: code_def)

lemma char_of_code: "char_of (code c) = c"
  by (simp add: code_def)

lemma in_range_enum:
  assumes "code lo \<le> code hi"
  shows "in_range lo hi c \<longleftrightarrow> c \<in> set (map char_of [code lo..<Suc (code hi)])"
proof
  assume "in_range lo hi c"
  then have "code c \<in> set [code lo..<Suc (code hi)]" by (auto simp: in_range_def)
  then have "char_of (code c) \<in> char_of ` set [code lo..<Suc (code hi)]" by (rule imageI)
  then show "c \<in> set (map char_of [code lo..<Suc (code hi)])" by (simp add: char_of_code)
next
  assume "c \<in> set (map char_of [code lo..<Suc (code hi)])"
  then obtain n where n: "c = char_of n" "code lo \<le> n" "n \<le> code hi" by auto
  have "code hi < 256" by (simp add: code_def)
  then have "code c = n" using n by (simp add: code_char_of)
  then show "in_range lo hi c" using n by (simp add: in_range_def)
qed

lemma digits_enum: "map char_of [code CHR ''0''..<Suc (code CHR ''9'')] = ''0123456789''"
  by code_simp

lemma af_enum: "map char_of [code CHR ''a''..<Suc (code CHR ''f'')] = ''abcdef''"
  by code_simp

lemma AF_enum: "map char_of [code CHR ''A''..<Suc (code CHR ''F'')] = ''ABCDEF''"
  by code_simp

lemma in_range_digit: "in_range CHR ''0'' CHR ''9'' c \<longleftrightarrow> c \<in> set ''0123456789''"
  using in_range_enum[of "CHR ''0''" "CHR ''9''" c] by (simp only: digits_enum) (simp add: code_def)

lemma in_range_af: "in_range CHR ''a'' CHR ''f'' c \<longleftrightarrow> c \<in> set ''abcdef''"
  using in_range_enum[of "CHR ''a''" "CHR ''f''" c] by (simp only: af_enum) (simp add: code_def)

lemma in_range_AF: "in_range CHR ''A'' CHR ''F'' c \<longleftrightarrow> c \<in> set ''ABCDEF''"
  using in_range_enum[of "CHR ''A''" "CHR ''F''" c] by (simp only: AF_enum) (simp add: code_def)

lemma is_hex_split:
  "is_hex c \<longleftrightarrow> c \<in> set ''0123456789'' \<or> c \<in> set ''abcdef'' \<or> c \<in> set ''ABCDEF''"
proof -
  have "''0123456789abcdefABCDEF'' = ''0123456789'' @ ''abcdef'' @ ''ABCDEF''" by simp
  then have "set ''0123456789abcdefABCDEF'' = set ''0123456789'' \<union> set ''abcdef'' \<union> set ''ABCDEF''"
    by (simp only: set_append Un_assoc)
  then show ?thesis unfolding is_hex_def by blast
qed

lemma is_hex_class:
  "class_has False [(CHR ''a'', CHR ''f''), (CHR ''A'', CHR ''F''), (CHR ''0'', CHR ''9'')] c \<longleftrightarrow> is_hex c"
  "class_has False [(CHR ''A'', CHR ''F''), (CHR ''a'', CHR ''f''), (CHR ''0'', CHR ''9'')] c \<longleftrightarrow> is_hex c"
proof -
  have "class_has False [(CHR ''a'', CHR ''f''), (CHR ''A'', CHR ''F''), (CHR ''0'', CHR ''9'')] c
     \<longleftrightarrow> in_range CHR ''a'' CHR ''f'' c \<or> in_range CHR ''A'' CHR ''F'' c \<or> in_range CHR ''0'' CHR ''9'' c"
    by (simp add: class_has_def)
  then show "class_has False [(CHR ''a'', CHR ''f''), (CHR ''A'', CHR ''F''), (CHR ''0'', CHR ''9'')] c \<longleftrightarrow> is_hex c"
    unfolding is_hex_split in_range_digit in_range_af in_range_AF by blast
  have "class_has False [(CHR ''A'', CHR ''F''), (CHR ''a'', CHR ''f''), (CHR ''0'', CHR ''9'')] c
     \<longleftrightarrow> in_range CHR ''A'' CHR ''F'' c \<or> in_range CHR ''a'' CHR ''f'' c \<or> in_range CHR ''0'' CHR ''9'' c"
    by (simp add: class_has_def)
  then show "class_has False [(CHR ''A'', CHR ''F''), (CHR ''a'', CHR ''f''), (CHR ''0'', CHR ''9'')] c \<longleftrightarrow> is_hex c"
    unfolding is_hex_split in_range_digit in_range_af in_range_AF by blast
qed

lemma code_less: "code c < 256"
  by (simp add: code_def)

lemma code_toUpperCase:
  "code (toUpperCase c) = (if 97 \<le> code c \<and> code c \<le> 122 then code c - 32 else code c)"
proof -
  have "code CHR ''a'' = 97" "code CHR ''z'' = 122" by (simp_all add: code_def)
  then show ?thesis using code_less[of c]
    by (simp add: toUpperCase_def in_range_def code_char_of)
qed

lemma code_toLowerCase:
  "code (toLowerCase c) = (if 65 \<le> code c \<and> code c \<le> 90 then code c + 32 else code c)"
proof -
  have "code CHR ''A'' = 65" "code CHR ''Z'' = 90" by (simp_all add: code_def)
  then show ?thesis using code_less[of c]
    by (simp add: toLowerCase_def in_range_def code_char_of)
qed

lemma same_canonical_form:
  "toUpperCase a = toUpperCase c \<longleftrightarrow> a = c \<or> a = toUpperCase c \<or> a = toLowerCase c"
proof -
  have "code (toUpperCase a) = code (toUpperCase c)
      \<longleftrightarrow> code a = code c \<or> code a = code (toUpperCase c) \<or> code a = code (toLowerCase c)"
    unfolding code_toUpperCase code_toLowerCase by (auto split: if_splits)
  then show ?thesis by (simp only: code_eq_iff)
qed

lemma class_has_iff:
  "class_has ic rs c \<longleftrightarrow> (\<exists>a. class_member rs a \<and> canonicalize ic a = canonicalize ic c)"
proof (cases ic)
  case False
  then show ?thesis by (simp add: class_has_def class_member_def canonicalize_def)
next
  case True
  have "(\<exists>a. class_member rs a \<and> toUpperCase a = toUpperCase c)
      \<longleftrightarrow> class_member rs c \<or> class_member rs (toUpperCase c) \<or> class_member rs (toLowerCase c)"
    unfolding same_canonical_form by blast
  also have "\<dots> \<longleftrightarrow> class_has True rs c"
    by (auto simp: class_has_def class_member_def list_ex_iff)
  finally show ?thesis using True by (simp add: canonicalize_def)
qed

lemma lang_Cls: "lang ic (Cls rs) = {[x] | x. class_has ic rs x}"
  by (simp add: class_has_iff)

declare lang.simps(3) [simp del]

declare lang_Cls [simp]

section \<open>The matcher decides the language of the pattern\<close>

lemma cat_iff: "s \<in> cat A B \<longleftrightarrow> (\<exists>u v. s = u @ v \<and> u \<in> A \<and> v \<in> B)"
  by (simp add: cat_def)

lemma cat_assoc: "cat (cat A B) C = cat A (cat B C)"
proof (intro set_eqI iffI)
  fix s assume "s \<in> cat (cat A B) C"
  then obtain a b c where "s = (a @ b) @ c" "a \<in> A" "b \<in> B" "c \<in> C"
    unfolding cat_iff by blast
  then have "s = a @ (b @ c) \<and> a \<in> A \<and> b @ c \<in> cat B C" unfolding cat_iff by auto
  then show "s \<in> cat A (cat B C)" unfolding cat_iff[of s] by blast
next
  fix s assume "s \<in> cat A (cat B C)"
  then obtain a b c where "s = a @ (b @ c)" "a \<in> A" "b \<in> B" "c \<in> C"
    unfolding cat_iff by blast
  then have "s = (a @ b) @ c \<and> a @ b \<in> cat A B \<and> c \<in> C" unfolding cat_iff by auto
  then show "s \<in> cat (cat A B) C" unfolding cat_iff[of s] by blast
qed

lemma cat_eps [simp]: "cat {[]} A = A"
  by (auto simp: cat_def)

lemma cat_empty [simp]: "cat {} A = {}"
  by (auto simp: cat_def)

lemma cat_Un: "cat (A \<union> B) C = cat A C \<union> cat B C"
  by (auto simp: cat_def)

lemma cat_insert_eps: "cat (insert [] A) K = cat A K \<union> K"
proof -
  have "cat (insert [] A) K = cat (A \<union> {[]}) K" by simp
  then show ?thesis by (simp only: cat_Un cat_eps)
qed

lemma cat_atom:
  "s \<in> cat {[x] | x. P x} A \<longleftrightarrow> (case s of [] \<Rightarrow> False | x # xs \<Rightarrow> P x \<and> xs \<in> A)"
proof
  assume "s \<in> cat {[x] | x. P x} A"
  then obtain x v where "s = [x] @ v" "P x" "v \<in> A" unfolding cat_iff by blast
  then show "case s of [] \<Rightarrow> False | x # xs \<Rightarrow> P x \<and> xs \<in> A" by simp
next
  assume a: "case s of [] \<Rightarrow> False | x # xs \<Rightarrow> P x \<and> xs \<in> A"
  then obtain x xs where "s = x # xs" "P x" "xs \<in> A" by (cases s) auto
  then have "s = [x] @ xs \<and> [x] \<in> {[x] | x. P x} \<and> xs \<in> A" by simp
  then show "s \<in> cat {[x] | x. P x} A" unfolding cat_iff by blast
qed

lemma lang_Rep_0: "lang ic (Rep lo 0 a) = (if lo = 0 then {[]} else {})"
  by auto

lemma lang_Rep_Suc_pos:
  assumes "lo \<noteq> 0"
  shows "lang ic (Rep lo (Suc hi) a) = cat (lang ic a) (lang ic (Rep (lo - 1) hi a))"
proof (intro set_eqI iffI)
  fix s assume "s \<in> lang ic (Rep lo (Suc hi) a)"
  then obtain n where n: "lo \<le> n" "n \<le> Suc hi" "s \<in> lpow n (lang ic a)" by auto
  with assms obtain n' where n': "n = Suc n'" by (cases n) auto
  with n(3) obtain u v where uv: "s = u @ v" "u \<in> lang ic a" "v \<in> lpow n' (lang ic a)"
    by (auto simp: cat_iff)
  have "lo - 1 \<le> n'" "n' \<le> hi" using n n' by arith+
  with uv(3) have "v \<in> lang ic (Rep (lo - 1) hi a)" by auto
  with uv show "s \<in> cat (lang ic a) (lang ic (Rep (lo - 1) hi a))" unfolding cat_iff by blast
next
  fix s assume "s \<in> cat (lang ic a) (lang ic (Rep (lo - 1) hi a))"
  then obtain u v where uv: "s = u @ v" "u \<in> lang ic a" "v \<in> lang ic (Rep (lo - 1) hi a)"
    unfolding cat_iff by blast
  then obtain n where n: "lo - 1 \<le> n" "n \<le> hi" "v \<in> lpow n (lang ic a)" by auto
  have "s \<in> lpow (Suc n) (lang ic a)" using uv(1,2) n(3) by (auto simp: cat_iff)
  moreover have "lo \<le> Suc n" "Suc n \<le> Suc hi" using n by arith+
  ultimately show "s \<in> lang ic (Rep lo (Suc hi) a)" unfolding lang.simps by blast
qed

lemma lang_Rep_Suc_zero:
  "lang ic (Rep 0 (Suc hi) a) = cat (lang ic a) (lang ic (Rep 0 hi a)) \<union> {[]}"
proof (intro set_eqI iffI)
  fix s assume "s \<in> lang ic (Rep 0 (Suc hi) a)"
  then obtain n where n: "n \<le> Suc hi" "s \<in> lpow n (lang ic a)" by auto
  show "s \<in> cat (lang ic a) (lang ic (Rep 0 hi a)) \<union> {[]}"
  proof (cases n)
    case 0
    with n show ?thesis by simp
  next
    case (Suc n')
    with n(2) obtain u v where uv: "s = u @ v" "u \<in> lang ic a" "v \<in> lpow n' (lang ic a)"
      by (auto simp: cat_iff)
    have "n' \<le> hi" using n Suc by arith
    with uv(3) have "v \<in> lang ic (Rep 0 hi a)" by auto
    with uv have "s \<in> cat (lang ic a) (lang ic (Rep 0 hi a))" unfolding cat_iff by blast
    then show ?thesis by simp
  qed
next
  fix s assume "s \<in> cat (lang ic a) (lang ic (Rep 0 hi a)) \<union> {[]}"
  then consider (more) "s \<in> cat (lang ic a) (lang ic (Rep 0 hi a))" | (stop) "s = []" by blast
  then show "s \<in> lang ic (Rep 0 (Suc hi) a)"
  proof cases
    case more
    then obtain u v where uv: "s = u @ v" "u \<in> lang ic a" "v \<in> lang ic (Rep 0 hi a)"
      unfolding cat_iff by blast
    then obtain n where n: "n \<le> hi" "v \<in> lpow n (lang ic a)" by auto
    have "s \<in> lpow (Suc n) (lang ic a)" using uv(1,2) n(2) by (auto simp: cat_iff)
    moreover have "0 \<le> Suc n" "Suc n \<le> Suc hi" using n by arith+
    ultimately show ?thesis unfolding lang.simps by blast
  next
    case stop
    have "[] \<in> lpow 0 (lang ic a)" by simp
    then show ?thesis unfolding stop lang.simps by blast
  qed
qed

lemma m_iff_klang: "m ic r ks s \<longleftrightarrow> s \<in> klang ic (r # ks)"
proof (induction ic r ks s rule: m.induct)
  case (1 ic s)
  show ?case by simp
next
  case (2 ic r ks s)
  then show ?case by simp
next
  case (3 ic c ks s)
  then show ?case by (cases s) (auto simp: cat_atom)
next
  case (4 ic rs ks s)
  then show ?case by (cases s) (auto simp: cat_atom)
next
  case (5 ic ks s)
  then show ?case by (cases s) (auto simp: cat_atom)
next
  case (6 ic a b ks s)
  then show ?case by (simp add: cat_assoc)
next
  case (7 ic a b ks s)
  then show ?case by (auto simp: cat_Un)
next
  case (8 ic a ks s)
  then show ?case by (auto simp: cat_insert_eps)
next
  case (9 ic lo a ks s)
  then show ?case by (simp add: lang_Rep_0 del: lang.simps(8))
next
  case (10 ic lo hi a ks s)
  show ?case
  proof (cases "lo = 0")
    case True
    then show ?thesis using 10(2,3)
      by (auto simp: lang_Rep_Suc_zero cat_insert_eps cat_assoc simp del: lang.simps(8))
  next
    case False
    then show ?thesis using 10(1)
      by (simp add: lang_Rep_Suc_pos cat_assoc del: lang.simps(8))
  qed
qed


lemma test_iff_matches: "test p s \<longleftrightarrow> matches p s"
  by (simp add: test_def matches_def m_iff_klang cat_iff)

lemma lpow_atoms: "s \<in> lpow n {[x] | x. P x} \<longleftrightarrow> length s = n \<and> list_all P s"
proof (induction n arbitrary: s)
  case 0
  show ?case by auto
next
  case (Suc n)
  show ?case
  proof (cases s)
    case Nil
    then show ?thesis by (simp add: cat_atom)
  next
    case (Cons x xs)
    then show ?thesis using Suc.IH[of xs] by (auto simp: cat_atom)
  qed
qed

lemma lang_Rep_Cls:
  "s \<in> lang ic (Rep n n (Cls rs)) \<longleftrightarrow> length s = n \<and> list_all (class_has ic rs) s"
proof -
  have "s \<in> lang ic (Rep n n (Cls rs)) \<longleftrightarrow> s \<in> lpow n {[x] | x. class_has ic rs x}"
    by (auto simp: order_antisym_conv)
  then show ?thesis by (simp only: lpow_atoms)
qed

lemma matches_hex:
  "matches spec_md5 s \<longleftrightarrow> hex_of_length 32 s"
  "matches spec_sha1 s \<longleftrightarrow> hex_of_length 40 s"
  "matches spec_sha256 s \<longleftrightarrow> hex_of_length 64 s"
  unfolding matches_def spec_md5_def spec_sha1_def spec_sha256_def hex_of_length_def
  by (simp_all add: lang_Rep_Cls is_hex_class[abs_def] del: lang.simps)

section \<open>The classifiers and the patterns of the specification\<close>

lemma lang_Cls_lit: "lang False (Cls [lit c]) = lang False (Chr c)"
  by (simp add: class_has_def lit_def in_range_lit canonicalize_def)

lemma class_has_swap:
  "class_has ic [a, b, c, d, e] x = class_has ic [a, b, c, e, d] x"
  by (auto simp: class_has_def)

lemma lang_Cls_swap: "lang ic (Cls [a, b, c, d, e]) = lang ic (Cls [a, b, c, e, d])"
  by (simp add: class_has_swap[of ic a b c d e])

lemma bcrypt_patterns_agree: "matches bcryptHashPattern s \<longleftrightarrow> matches spec_bcrypt s"
proof -
  have "lang False (body bcryptHashPattern) = lang False (body spec_bcrypt)"
    unfolding bcryptHashPattern_def spec_bcrypt_def
    by (simp add: seqs_def lang_Cls_lit lang_Cls_swap[of False _ _ _ "(CHR ''a'', CHR ''z'')"] del: lang.simps(2) lang_Cls)
  then show ?thesis by (simp add: matches_def bcryptHashPattern_def spec_bcrypt_def)
qed

lemma other_patterns_agree:
  "argon2HashPattern = spec_argon2" "md5HashPattern = spec_md5"
  "sha1HashPattern = spec_sha1" "sha256HashPattern = spec_sha256"
  by (simp_all add: argon2HashPattern_def spec_argon2_def md5HashPattern_def spec_md5_def
      sha1HashPattern_def spec_sha1_def sha256HashPattern_def spec_sha256_def)

text \<open>
  Claim C1. On every string each classifier returns, without an exception, whether the
  string matches the pattern of the format table: \<open>isBcrypt\<close> the bcrypt pattern,
  \<open>isArgon2\<close> the PHC pattern under case folding, \<open>isMD5\<close>, \<open>isSHA1\<close> and
  \<open>isSHA256\<close> exactly 32, 40 and 64 hexadecimal characters.
\<close>

theorem classifiers_decide_spec_patterns:
  "isBcrypt host (JString s) = Inr (matches spec_bcrypt s) \<and>
   isArgon2 host (JString s) = Inr (matches spec_argon2 s) \<and>
   isMD5 host (JString s) = Inr (matches spec_md5 s) \<and>
   isSHA1 host (JString s) = Inr (matches spec_sha1 s) \<and>
   isSHA256 host (JString s) = Inr (matches spec_sha256 s) \<and>
   isMD5 host (JString s) = Inr (hex_of_length 32 s) \<and>
   isSHA1 host (JString s) = Inr (hex_of_length 40 s) \<and>
   isSHA256 host (JString s) = Inr (hex_of_length 64 s)"
proof -
  have 1: "isBcrypt host (JString s) = Inr (matches spec_bcrypt s)"
    by (simp add: isBcrypt_def test_iff_matches bcrypt_patterns_agree)
  have 2: "isArgon2 host (JString s) = Inr (matches spec_argon2 s)"
    by (simp add: isArgon2_def test_iff_matches other_patterns_agree)
  have 3: "isMD5 host (JString s) = Inr (matches spec_md5 s)"
    by (simp add: isMD5_def test_iff_matches other_patterns_agree)
  have 4: "isSHA1 host (JString s) = Inr (matches spec_sha1 s)"
    by (simp add: isSHA1_def test_iff_matches other_patterns_agree)
  have 5: "isSHA256 host (JString s) = Inr (matches spec_sha256 s)"
    by (simp add: isSHA256_def test_iff_matches other_patterns_agree)
  show ?thesis using 1 2 3 4 5 by (simp only: matches_hex simp_thms)
qed

text \<open>The examples of the specification, and an Argon2 hash.\<close>

theorem classifiers_decide_spec_patterns_witness:
  "matches spec_bcrypt ''$2b$10$AAAAAAAAAAAAAAAAAAAAAAAAAAAAAAAAAAAAAAAAAAAAAAAAAAAAA'' \<and>
   \<not> matches spec_bcrypt ''not-a-hash'' \<and>
   hex_of_length 32 ''5d41402abc4b2a76b9719d911017c592'' \<and>
   matches spec_argon2
     ''$argon2id$v=19$m=65536,t=3,p=4$c29tZXNhbHRzb21lc2FsdA$RdescudvJCsgt3ub+b+dWRWJTmaaJObG''"
proof -
  have "isBcrypt plain_host
      (JString ''$2b$10$AAAAAAAAAAAAAAAAAAAAAAAAAAAAAAAAAAAAAAAAAAAAAAAAAAAAA'') = Inr True"
    by code_simp
  moreover have "isBcrypt plain_host
      (JString ''$2b$10$AAAAAAAAAAAAAAAAAAAAAAAAAAAAAAAAAAAAAAAAAAAAAAAAAAAAA'')
      = Inr (matches spec_bcrypt ''$2b$10$AAAAAAAAAAAAAAAAAAAAAAAAAAAAAAAAAAAAAAAAAAAAAAAAAAAAA'')"
    using classifiers_decide_spec_patterns[of plain_host
        "''$2b$10$AAAAAAAAAAAAAAAAAAAAAAAAAAAAAAAAAAAAAAAAAAAAAAAAAAAAA''"]
    by (rule conjunct1)
  ultimately have 1:
    "matches spec_bcrypt ''$2b$10$AAAAAAAAAAAAAAAAAAAAAAAAAAAAAAAAAAAAAAAAAAAAAAAAAAAAA''"
    by (simp only: sum.inject simp_thms)
  have "isBcrypt plain_host (JString ''not-a-hash'') = Inr False"
    by code_simp
  moreover have "isBcrypt plain_host (JString ''not-a-hash'')
      = Inr (matches spec_bcrypt ''not-a-hash'')"
    using classifiers_decide_spec_patterns[of plain_host "''not-a-hash''"]
    by (rule conjunct1)
  ultimately have 2: "\<not> matches spec_bcrypt ''not-a-hash''"
    by (simp only: sum.inject simp_thms)
  have "isMD5 plain_host (JString ''5d41402abc4b2a76b9719d911017c592'') = Inr True"
    by code_simp
  moreover have "isMD5 plain_host (JString ''5d41402abc4b2a76b9719d911017c592'')
      = Inr (hex_of_length 32 ''5d41402abc4b2a76b9719d911017c592'')"
    using classifiers_decide_spec_patterns[of plain_host "''5d41402abc4b2a76b9719d911017c592''"]
    by blast
  ultimately have 3: "hex_of_length 32 ''5d41402abc4b2a76b9719d911017c592''"
    by (simp only: sum.inject simp_thms)
  have "isArgon2 plain_host (JString
      ''$argon2id$v=19$m=65536,t=3,p=4$c29tZXNhbHRzb21lc2FsdA$RdescudvJCsgt3ub+b+dWRWJTmaaJObG'')
      = Inr True"
    by code_simp
  moreover have "isArgon2 plain_host (JString
      ''$argon2id$v=19$m=65536,t=3,p=4$c29tZXNhbHRzb21lc2FsdA$RdescudvJCsgt3ub+b+dWRWJTmaaJObG'')
      = Inr (matches spec_argon2
      ''$argon2id$v=19$m=65536,t=3,p=4$c29tZXNhbHRzb21lc2FsdA$RdescudvJCsgt3ub+b+dWRWJTmaaJObG'')"
    using classifiers_decide_spec_patterns[of plain_host
        "''$argon2id$v=19$m=65536,t=3,p=4$c29tZXNhbHRzb21lc2FsdA$RdescudvJCsgt3ub+b+dWRWJTmaaJObG''"]
    by blast
  ultimately have 4: "matches spec_argon2
      ''$argon2id$v=19$m=65536,t=3,p=4$c29tZXNhbHRzb21lc2FsdA$RdescudvJCsgt3ub+b+dWRWJTmaaJObG''"
    by (simp only: sum.inject simp_thms)
  show ?thesis using 1 2 3 4 by (intro conjI)
qed

section \<open>The classifiers exclude one another\<close>

lemma lang_seqs_Cons: "lang ic (seqs (r # rs)) = cat (lang ic r) (lang ic (seqs rs))"
  by (simp add: seqs_def)

lemma lang_str_Cons: "lang ic (str (c # cs)) = cat (lang ic (Chr c)) (lang ic (str cs))"
  by (simp add: str_def)

lemma cat_atom_head:
  assumes "s \<in> cat {[x] | x. P x} A"
  obtains x xs where "s = x # xs" "P x" "xs \<in> A"
  using assms by (auto simp: cat_atom split: list.splits)

lemma bcrypt_head:
  assumes "matches bcryptHashPattern s"
  shows "\<exists>t. s = CHR ''$'' # CHR ''2'' # t"
proof -
  have "s \<in> lang False (body bcryptHashPattern)"
    using assms by (simp add: matches_def bcryptHashPattern_def)
  then obtain R where R: "s \<in> cat (lang False (Cls [lit CHR ''$''])) (cat (lang False (Chr CHR ''2'')) R)"
    unfolding bcryptHashPattern_def regexp.simps lang_seqs_Cons by blast
  then obtain x xs where x: "s = x # xs" "class_has False [lit CHR ''$''] x"
      "xs \<in> cat (lang False (Chr CHR ''2'')) R"
    unfolding lang_Cls by (rule cat_atom_head)
  from x(3) obtain y ys where y: "xs = y # ys" "canonicalize False y = canonicalize False CHR ''2''"
    unfolding lang.simps by (rule cat_atom_head)
  have "x = CHR ''$''" using x(2) by (simp add: class_has_def lit_def in_range_lit)
  moreover have "y = CHR ''2''" using y(2) by (simp add: canonicalize_def)
  ultimately show ?thesis using x(1) y(1) by simp
qed

lemma argon2_head:
  assumes "matches argon2HashPattern s"
  shows "\<exists>x y t. s = x # y # t \<and> toUpperCase x = CHR ''$'' \<and> toUpperCase y = CHR ''A''"
proof -
  have "s \<in> lang True (body argon2HashPattern)"
    using assms by (simp add: matches_def argon2HashPattern_def)
  then obtain R where R: "s \<in> cat (lang True (Chr CHR ''$'')) (cat (lang True (Chr CHR ''a'')) R)"
    unfolding argon2HashPattern_def regexp.simps lang_seqs_Cons lang_str_Cons cat_assoc by blast
  then obtain x xs where x: "s = x # xs" "canonicalize True x = canonicalize True CHR ''$''"
      "xs \<in> cat (lang True (Chr CHR ''a'')) R"
    unfolding lang.simps by (rule cat_atom_head)
  from x(3) obtain y ys where y: "xs = y # ys" "canonicalize True y = canonicalize True CHR ''a''"
    unfolding lang.simps by (rule cat_atom_head)
  have "toUpperCase CHR ''$'' = CHR ''$''" "toUpperCase CHR ''a'' = CHR ''A''"
    by code_simp+
  then show ?thesis using x(1,2) y by (simp add: canonicalize_def)
qed


lemma hex_head:
  assumes "hex_of_length n s" "0 < n"
  shows "\<exists>x t. s = x # t \<and> is_hex x"
  using assms by (cases s) (auto simp: hex_of_length_def)

lemma toUpperCase_dollar: "toUpperCase x = CHR ''$'' \<Longrightarrow> x = CHR ''$''"
proof (cases "in_range CHR ''a'' CHR ''z'' x")
  case False
  assume "toUpperCase x = CHR ''$''"
  with False show ?thesis by (simp add: toUpperCase_def)
next
  case True
  assume a: "toUpperCase x = CHR ''$''"
  from True have r: "97 \<le> code x" "code x \<le> 122" by (simp_all add: in_range_def code_def)
  then have "code (char_of (code x - 32)) = code x - 32" by (simp add: code_char_of)
  moreover have "toUpperCase x = char_of (code x - 32)" using True by (simp add: toUpperCase_def)
  ultimately have "code (toUpperCase x) = code x - 32" by simp
  with a have "code x - 32 = 36" by (simp add: code_def)
  with r show ?thesis by arith
qed

lemma not_hex_dollar: "\<not> is_hex CHR ''$''"
  by (simp add: is_hex_def)

lemma isX_True:
  "isBcrypt host (JString s) = Inr True \<longleftrightarrow> matches bcryptHashPattern s"
  "isArgon2 host (JString s) = Inr True \<longleftrightarrow> matches argon2HashPattern s"
  "isMD5 host (JString s) = Inr True \<longleftrightarrow> hex_of_length 32 s"
  "isSHA1 host (JString s) = Inr True \<longleftrightarrow> hex_of_length 40 s"
  "isSHA256 host (JString s) = Inr True \<longleftrightarrow> hex_of_length 64 s"
  by (simp_all add: isBcrypt_def isArgon2_def isMD5_def isSHA1_def isSHA256_def
      test_iff_matches other_patterns_agree matches_hex)

text \<open>
  Claim C9. No string is accepted by two of the five classifiers: the three hexadecimal
  formats differ in length, a string accepted by \<open>isBcrypt\<close> or \<open>isArgon2\<close> starts
  with \<open>$\<close>, which is no hexadecimal character, and after it comes \<open>2\<close> for bcrypt and
  \<open>a\<close> or \<open>A\<close> for Argon2.
\<close>

theorem classifiers_pairwise_exclusive:
  "\<not> (isMD5 host (JString s) = Inr True \<and> isSHA1 host (JString s) = Inr True) \<and>
   \<not> (isMD5 host (JString s) = Inr True \<and> isSHA256 host (JString s) = Inr True) \<and>
   \<not> (isSHA1 host (JString s) = Inr True \<and> isSHA256 host (JString s) = Inr True) \<and>
   \<not> (isBcrypt host (JString s) = Inr True \<and> isMD5 host (JString s) = Inr True) \<and>
   \<not> (isBcrypt host (JString s) = Inr True \<and> isSHA1 host (JString s) = Inr True) \<and>
   \<not> (isBcrypt host (JString s) = Inr True \<and> isSHA256 host (JString s) = Inr True) \<and>
   \<not> (isArgon2 host (JString s) = Inr True \<and> isMD5 host (JString s) = Inr True) \<and>
   \<not> (isArgon2 host (JString s) = Inr True \<and> isSHA1 host (JString s) = Inr True) \<and>
   \<not> (isArgon2 host (JString s) = Inr True \<and> isSHA256 host (JString s) = Inr True) \<and>
   \<not> (isBcrypt host (JString s) = Inr True \<and> isArgon2 host (JString s) = Inr True)"
proof -
  have len: "\<not> (hex_of_length a s \<and> hex_of_length b s)" if "a \<noteq> b" for a b
    using that by (auto simp: hex_of_length_def)
  have b_hex: "\<not> (matches bcryptHashPattern s \<and> hex_of_length n s)" if pos: "0 < n" for n
  proof
    assume a: "matches bcryptHashPattern s \<and> hex_of_length n s"
    then obtain t where "s = CHR ''$'' # CHR ''2'' # t" using bcrypt_head by blast
    moreover obtain x t' where "s = x # t'" "is_hex x" using hex_head[OF _ pos] a by blast
    ultimately show False using not_hex_dollar by simp
  qed
  have a_hex: "\<not> (matches argon2HashPattern s \<and> hex_of_length n s)" if pos: "0 < n" for n
  proof
    assume a: "matches argon2HashPattern s \<and> hex_of_length n s"
    then obtain x y t where s: "s = x # y # t" "toUpperCase x = CHR ''$''"
      using argon2_head by blast
    moreover obtain x' t' where "s = x' # t'" "is_hex x'" using hex_head[OF _ pos] a by blast
    ultimately show False using not_hex_dollar toUpperCase_dollar by auto
  qed
  have b_a: "\<not> (matches bcryptHashPattern s \<and> matches argon2HashPattern s)"
  proof
    assume a: "matches bcryptHashPattern s \<and> matches argon2HashPattern s"
    then obtain t where 1: "s = CHR ''$'' # CHR ''2'' # t" using bcrypt_head by blast
    obtain x y t' where 2: "s = x # y # t'" "toUpperCase y = CHR ''A''"
      using a argon2_head by blast
    have "toUpperCase CHR ''2'' = CHR ''2''" by code_simp
    with 1 2 show False by simp
  qed
  show ?thesis
    unfolding isX_True
    using len[of 32 40] len[of 32 64] len[of 40 64] b_hex[of 32] b_hex[of 40] b_hex[of 64]
      a_hex[of 32] a_hex[of 40] a_hex[of 64] b_a
    by simp
qed

theorem classifiers_pairwise_exclusive_witness:
  "isMD5 plain_host (JString ''5d41402abc4b2a76b9719d911017c592'') = Inr True \<and>
   isSHA1 plain_host (JString ''5d41402abc4b2a76b9719d911017c592'') \<noteq> Inr True \<and>
   isSHA256 plain_host (JString ''5d41402abc4b2a76b9719d911017c592'') \<noteq> Inr True \<and>
   isBcrypt plain_host (JString ''5d41402abc4b2a76b9719d911017c592'') \<noteq> Inr True \<and>
   isArgon2 plain_host (JString ''5d41402abc4b2a76b9719d911017c592'') \<noteq> Inr True \<and>
   isBcrypt plain_host
     (JString ''$2b$10$AAAAAAAAAAAAAAAAAAAAAAAAAAAAAAAAAAAAAAAAAAAAAAAAAAAAA'') = Inr True \<and>
   isArgon2 plain_host
     (JString ''$2b$10$AAAAAAAAAAAAAAAAAAAAAAAAAAAAAAAAAAAAAAAAAAAAAAAAAAAAA'') \<noteq> Inr True \<and>
   isSHA256 plain_host
     (JString ''$2b$10$AAAAAAAAAAAAAAAAAAAAAAAAAAAAAAAAAAAAAAAAAAAAAAAAAAAAA'') \<noteq> Inr True"
proof -
  have 1: "isMD5 plain_host (JString ''5d41402abc4b2a76b9719d911017c592'') = Inr True"
    by code_simp
  have 2: "isBcrypt plain_host
     (JString ''$2b$10$AAAAAAAAAAAAAAAAAAAAAAAAAAAAAAAAAAAAAAAAAAAAAAAAAAAAA'') = Inr True"
    by code_simp
  show ?thesis
    using 1 2
      classifiers_pairwise_exclusive[of plain_host "''5d41402abc4b2a76b9719d911017c592''"]
      classifiers_pairwise_exclusive[of plain_host
        "''$2b$10$AAAAAAAAAAAAAAAAAAAAAAAAAAAAAAAAAAAAAAAAAAAAAAAAAAAAA''"]
    by blast
qed

section \<open>Inputs that are not text\<close>

lemma toString_JString: "toString host (JString s) = Inr s"
  by simp

lemma toString_text:
  "(\<exists>s. v = JString s) \<or> (\<exists>b. v = JBuffer b) \<Longrightarrow> \<exists>s. toString host v = Inr s"
  by auto

text \<open>A value of another kind can make the call throw, and the classifier throws with it.\<close>

lemma classifiers_propagate_toString_errors:
  assumes "call_toString host (JObject l) = Inl e"
  shows "isBcrypt host (JObject l) = Inl e" "isArgon2 host (JObject l) = Inl e"
    "isMD5 host (JObject l) = Inl e" "isSHA1 host (JObject l) = Inl e"
    "isSHA256 host (JObject l) = Inl e"
  using assms by (simp_all add: isBcrypt_def isArgon2_def isMD5_def isSHA1_def isSHA256_def)

lemma classifier_throws_without_toString_example:
  "isMD5 plain_host (JObject ''Object.create(null)'') = Inl TypeError"
  by (simp add: isMD5_def plain_host_def)

text \<open>
  Claim C4 says that the classifiers never throw, also on \<open>null\<close> and \<open>undefined\<close>,
  and return \<open>false\<close> there. They throw a TypeError on both: \<open>data.toString()\<close> reads
  a property of a nullish value.
\<close>

theorem classifiers_throw_on_null_counterexample:
  "isBcrypt plain_host JNull = Inl TypeError \<and>
   isArgon2 plain_host JNull = Inl TypeError \<and>
   isMD5 plain_host JNull = Inl TypeError \<and>
   isSHA1 plain_host JUndefined = Inl TypeError \<and>
   isSHA256 plain_host JUndefined = Inl TypeError"
  by (simp add: isBcrypt_def isArgon2_def isMD5_def isSHA1_def isSHA256_def)

text \<open>
  Claim C4, amended. On every string and on every Buffer, which is the declared type of
  the parameter, each classifier returns a boolean and throws nothing; on \<open>null\<close> and
  on \<open>undefined\<close> each throws a TypeError and returns nothing.
\<close>

theorem classifiers_total_on_text:
  "((\<exists>s. v = JString s) \<or> (\<exists>b. v = JBuffer b) \<longrightarrow>
      (\<exists>b. isBcrypt host v = Inr b) \<and> (\<exists>b. isArgon2 host v = Inr b) \<and>
      (\<exists>b. isMD5 host v = Inr b) \<and> (\<exists>b. isSHA1 host v = Inr b) \<and>
      (\<exists>b. isSHA256 host v = Inr b)) \<and>
   (v = JUndefined \<or> v = JNull \<longrightarrow>
      isBcrypt host v = Inl TypeError \<and> isArgon2 host v = Inl TypeError \<and>
      isMD5 host v = Inl TypeError \<and> isSHA1 host v = Inl TypeError \<and>
      isSHA256 host v = Inl TypeError)"
proof (intro conjI impI)
  assume a: "(\<exists>s. v = JString s) \<or> (\<exists>b. v = JBuffer b)"
  then obtain s where s: "toString host v = Inr s" using toString_text by blast
  show "\<exists>b. isBcrypt host v = Inr b" "\<exists>b. isArgon2 host v = Inr b"
       "\<exists>b. isMD5 host v = Inr b" "\<exists>b. isSHA1 host v = Inr b" "\<exists>b. isSHA256 host v = Inr b"
    using s by (simp_all add: isBcrypt_def isArgon2_def isMD5_def isSHA1_def isSHA256_def)
next
  assume a: "v = JUndefined \<or> v = JNull"
  then have s: "toString host v = Inl TypeError" by auto
  show "isBcrypt host v = Inl TypeError" "isArgon2 host v = Inl TypeError"
       "isMD5 host v = Inl TypeError" "isSHA1 host v = Inl TypeError"
       "isSHA256 host v = Inl TypeError"
    using s by (simp_all add: isBcrypt_def isArgon2_def isMD5_def isSHA1_def isSHA256_def)
qed

theorem classifiers_total_on_text_witness:
  "(\<exists>b. isMD5 plain_host (JBuffer ''5d41402abc4b2a76b9719d911017c592'') = Inr b) \<and>
   isMD5 plain_host (JBuffer ''5d41402abc4b2a76b9719d911017c592'') = Inr True \<and>
   (\<exists>b. isMD5 plain_host (JString ''not-a-hash'') = Inr b) \<and>
   isMD5 plain_host (JString ''not-a-hash'') = Inr False \<and>
   isMD5 plain_host JNull = Inl TypeError"
proof -
  have "(\<exists>s. JBuffer ''5d41402abc4b2a76b9719d911017c592'' = JString s)
      \<or> (\<exists>b. JBuffer ''5d41402abc4b2a76b9719d911017c592'' = JBuffer b)"
    by simp
  then have 1: "\<exists>b. isMD5 plain_host (JBuffer ''5d41402abc4b2a76b9719d911017c592'') = Inr b"
    using classifiers_total_on_text[of "JBuffer ''5d41402abc4b2a76b9719d911017c592''" plain_host]
    by blast
  have 2: "isMD5 plain_host (JBuffer ''5d41402abc4b2a76b9719d911017c592'') = Inr True"
    by code_simp
  have "(\<exists>s. JString ''not-a-hash'' = JString s) \<or> (\<exists>b. JString ''not-a-hash'' = JBuffer b)"
    by simp
  then have 3: "\<exists>b. isMD5 plain_host (JString ''not-a-hash'') = Inr b"
    using classifiers_total_on_text[of "JString ''not-a-hash''" plain_host]
    by blast
  have 4: "isMD5 plain_host (JString ''not-a-hash'') = Inr False"
    by code_simp
  have 5: "isMD5 plain_host JNull = Inl TypeError"
    using classifiers_total_on_text[of JNull plain_host] by blast
  show ?thesis using 1 2 3 4 5 by (intro conjI)
qed

section \<open>The validator and its dispatcher\<close>

text \<open>
  Claim C8. \<open>validate\<close> returns \<open>false\<close> for every value that is not a string,
  whatever the configured type, so only a string can validate as hashed.
\<close>

theorem validate_rejects_non_strings:
  "(typeof v \<noteq> ''string'' \<longrightarrow> validate host type v = Inr (JBoolean False)) \<and>
   (\<forall>r. validate host type v = Inr r \<and> truthy r \<longrightarrow> (\<exists>s. v = JString s))"
proof (intro conjI allI impI)
  assume "typeof v \<noteq> ''string''"
  then show "validate host type v = Inr (JBoolean False)" by (simp add: validate_def)
next
  fix r
  assume a: "validate host type v = Inr r \<and> truthy r"
  show "\<exists>s. v = JString s"
  proof (cases "typeof v = ''string''")
    case True
    then show ?thesis by (cases v) simp_all
  next
    case False
    then have "validate host type v = Inr (JBoolean False)" by (simp add: validate_def)
    with a show ?thesis by auto
  qed
qed

theorem validate_rejects_non_strings_witness:
  "validate plain_host (Some ''md5'') (JBuffer ''5d41402abc4b2a76b9719d911017c592'')
     = Inr (JBoolean False) \<and>
   validate plain_host None (JNumber 5) = Inr (JBoolean False) \<and>
   validate plain_host (Some ''sha1'') JNull = Inr (JBoolean False)"
proof -
  have "typeof (JBuffer ''5d41402abc4b2a76b9719d911017c592'') \<noteq> ''string''"
       "typeof (JNumber 5) \<noteq> ''string''" "typeof JNull \<noteq> ''string''"
    by simp_all
  then show ?thesis
    using validate_rejects_non_strings[of "JBuffer ''5d41402abc4b2a76b9719d911017c592''"
            plain_host "Some ''md5''"]
      validate_rejects_non_strings[of "JNumber 5" plain_host None]
      validate_rejects_non_strings[of JNull plain_host "Some ''sha1''"]
    by blast
qed

lemma classifier_on_string:
  "isBcrypt host (JString s) = Inr (test bcryptHashPattern s)"
  "isArgon2 host (JString s) = Inr (test argon2HashPattern s)"
  "isMD5 host (JString s) = Inr (test md5HashPattern s)"
  "isSHA1 host (JString s) = Inr (test sha1HashPattern s)"
  "isSHA256 host (JString s) = Inr (test sha256HashPattern s)"
  by (simp_all add: isBcrypt_def isArgon2_def isMD5_def isSHA1_def isSHA256_def)

lemma dispatcher_recognised_types:
  "mapValidationByHashType host ''bcrypt'' (JString x) = map_sum id JBoolean (isBcrypt host (JString x))"
  "mapValidationByHashType host ''argon2'' (JString x) = map_sum id JBoolean (isArgon2 host (JString x))"
  "mapValidationByHashType host ''md5'' (JString x) = map_sum id JBoolean (isMD5 host (JString x))"
  "mapValidationByHashType host ''sha1'' (JString x) = map_sum id JBoolean (isSHA1 host (JString x))"
  "mapValidationByHashType host ''sha256'' (JString x) = map_sum id JBoolean (isSHA256 host (JString x))"
  by (simp_all add: mapValidationByHashType_def classifier_on_string get_property_def)

lemma validate_default_check:
  "validate host None (JString x) =
     Inr (JBoolean (test bcryptHashPattern x \<or> test argon2HashPattern x))"
  by (simp add: validate_def classifier_on_string)

text \<open>A name that is neither a key of the literal nor inherited yields \<open>undefined\<close>.\<close>

lemma dispatcher_other_types:
  assumes "type \<notin> {''bcrypt'', ''argon2'', ''md5'', ''sha1'', ''sha256'', ''default''}"
    and "type \<notin> fst ` set Object_prototype"
  shows "mapValidationByHashType host type (JString x) = Inr JUndefined"
proof -
  have "map_of Object_prototype type = None"
    using assms(2) by (simp add: map_of_eq_None_iff)
  then show ?thesis
    using assms(1)
    by (simp add: mapValidationByHashType_def classifier_on_string get_property_def)
qed

text \<open>
  Claim C3 says that the dispatcher returns \<open>false\<close> for an unrecognised type name. For
  the five recognised names it returns the predicate's result, and without a type the
  check is \<open>isBcrypt(x) || isArgon2(x)\<close>, as the lemmas above state. For an
  unrecognised name the entry \<open>default: false\<close> of the object literal is not consulted:
  the lookup returns \<open>undefined\<close> for \<open>unknown-type\<close>, \<open>false\<close> for the name
  \<open>default\<close> only, and a function, which is truthy, for a name that every object
  inherits, such as \<open>toString\<close>.
\<close>

theorem dispatcher_unrecognised_type:
  "mapValidationByHashType host ''unknown-type'' (JString x) = Inr JUndefined \<and>
   validate host (Some ''unknown-type'') (JString x) = Inr JUndefined \<and>
   mapValidationByHashType host ''default'' (JString x) = Inr (JBoolean False) \<and>
   mapValidationByHashType host ''toString'' (JString x) = Inr (JFunction ''toString'') \<and>
   truthy (JFunction ''toString'')"
  by (simp add: validate_def mapValidationByHashType_def classifier_on_string get_property_def
      Object_prototype_def)

section \<open>The strategy holder\<close>

text \<open>
  Claim C2 says that \<open>getInstance()\<close> before any \<open>setInstance()\<close> fails with a
  ConfigurationError. It returns the unassigned field, \<open>undefined\<close>, and raises nothing.
\<close>

theorem getInstance_before_setInstance_counterexample:
  "getInstance (HashBin_new ([] :: string list)) = Inr None \<and>
   getInstance (HashBin_new ([] :: string list)) \<noteq> Inl ConfigurationError"
  by (simp add: getInstance_def HashBin_new_def)

text \<open>
  Claim C2, amended. \<open>getInstance()\<close> before any \<open>setInstance()\<close> returns
  \<open>undefined\<close> without an error; after \<open>setInstance(X)\<close> with an instance \<open>X\<close> it
  returns exactly \<open>X\<close>, and the heap is unchanged; after \<open>setInstance\<close> with a
  constructor it returns a new object of that class, at an address that no object had
  before, and the objects that existed are unchanged.
\<close>

theorem holder_returns_what_was_set:
  "getInstance (HashBin_new h) = Inr None \<and>
   getInstance (setInstance (Instance x) w) = Inr (Some x) \<and>
   heap (setInstance (Instance x) w) = heap w \<and>
   getInstance (setInstance (Constructor c) w) = Inr (Some (length (heap w))) \<and>
   heap (setInstance (Constructor c) w) ! length (heap w) = c \<and>
   (\<forall>a < length (heap w). heap (setInstance (Constructor c) w) ! a = heap w ! a
       \<and> Some a \<noteq> strategyInstance (setInstance (Constructor c) w))"
  by (auto simp: getInstance_def HashBin_new_def nth_append)

theorem holder_returns_what_was_set_witness:
  "getInstance (setInstance (Instance 0) (HashBin_new [''BcryptService''])) = Inr (Some 0) \<and>
   getInstance (setInstance (Constructor ''Argon2Service'') (HashBin_new [''BcryptService'']))
     = Inr (Some 1) \<and>
   heap (setInstance (Constructor ''Argon2Service'') (HashBin_new [''BcryptService'']))
     = [''BcryptService'', ''Argon2Service'']"
proof -
  have "heap (HashBin_new [''BcryptService'']) = [''BcryptService'']"
    by (simp add: HashBin_new_def)
  then show ?thesis
    using holder_returns_what_was_set[of "[''BcryptService'']" 0 "HashBin_new [''BcryptService'']"
        "''Argon2Service''"]
    by (simp add: HashBin_new_def)
qed

section \<open>The strategies\<close>

text \<open>
  Claim C10. With a non-empty salt in the options, \<open>BcryptService.hash\<close> is the
  library's hash of the data with that salt: the rounds are ignored, and so is the salt
  generator, so the result is determined by data and salt. Without a truthy salt the
  salt is generated, from the rounds when they are truthy.
\<close>

theorem bcrypt_explicit_salt_ignores_rounds:
  "(s \<noteq> [] \<longrightarrow>
      BcryptService_hash bcrypt data (Given \<lparr> bcrypt_salt = Some s, bcrypt_rounds = r \<rparr>)
        = bcrypt_hash bcrypt data s \<and>
      BcryptService_hash bcrypt data (Given \<lparr> bcrypt_salt = Some s, bcrypt_rounds = r \<rparr>)
        = BcryptService_hash bcrypt data (Given \<lparr> bcrypt_salt = Some s, bcrypt_rounds = None \<rparr>) \<and>
      BcryptService_hash (bcrypt \<lparr> genSaltSync := g \<rparr>) data
          (Given \<lparr> bcrypt_salt = Some s, bcrypt_rounds = r \<rparr>)
        = BcryptService_hash bcrypt data (Given \<lparr> bcrypt_salt = Some s, bcrypt_rounds = r \<rparr>)) \<and>
   (\<not> truthy_string so \<longrightarrow>
      getSalt bcrypt (Given \<lparr> bcrypt_salt = so, bcrypt_rounds = r \<rparr>)
        = genSaltSync bcrypt (if truthy_number r then r else None))"
  by (simp add: BcryptService_hash_def getSalt_def truthy_string_def)

theorem bcrypt_explicit_salt_ignores_rounds_witness:
  "BcryptService_hash recording_bcrypt ''pw''
      (Given \<lparr> bcrypt_salt = Some ''$2b$10$abcdefghijklmnopqrstuv'', bcrypt_rounds = Some 12 \<rparr>)
     = (''pw'', ''$2b$10$abcdefghijklmnopqrstuv'') \<and>
   BcryptService_hash recording_bcrypt ''pw''
      (Given \<lparr> bcrypt_salt = Some ''$2b$10$abcdefghijklmnopqrstuv'', bcrypt_rounds = Some 12 \<rparr>)
     = BcryptService_hash recording_bcrypt ''pw''
      (Given \<lparr> bcrypt_salt = Some ''$2b$10$abcdefghijklmnopqrstuv'', bcrypt_rounds = None \<rparr>) \<and>
   getSalt recording_bcrypt (Given \<lparr> bcrypt_salt = None, bcrypt_rounds = Some 12 \<rparr>)
     = ''generated-rounds'' \<and>
   getSalt recording_bcrypt (Given \<lparr> bcrypt_salt = Some [], bcrypt_rounds = Some 0 \<rparr>)
     = ''generated-default''"
proof -
  have "''$2b$10$abcdefghijklmnopqrstuv'' \<noteq> []" by simp
  then have 1: "BcryptService_hash recording_bcrypt ''pw''
      (Given \<lparr> bcrypt_salt = Some ''$2b$10$abcdefghijklmnopqrstuv'', bcrypt_rounds = Some 12 \<rparr>)
     = bcrypt_hash recording_bcrypt ''pw'' ''$2b$10$abcdefghijklmnopqrstuv'' \<and>
    BcryptService_hash recording_bcrypt ''pw''
      (Given \<lparr> bcrypt_salt = Some ''$2b$10$abcdefghijklmnopqrstuv'', bcrypt_rounds = Some 12 \<rparr>)
     = BcryptService_hash recording_bcrypt ''pw''
      (Given \<lparr> bcrypt_salt = Some ''$2b$10$abcdefghijklmnopqrstuv'', bcrypt_rounds = None \<rparr>)"
    using bcrypt_explicit_salt_ignores_rounds[of "''$2b$10$abcdefghijklmnopqrstuv''"
        recording_bcrypt "''pw''" "Some 12"]
    by blast
  have "\<not> truthy_string None" "\<not> truthy_string (Some [])"
    by (simp_all add: truthy_string_def)
  then have 2: "getSalt recording_bcrypt (Given \<lparr> bcrypt_salt = None, bcrypt_rounds = Some 12 \<rparr>)
       = genSaltSync recording_bcrypt (if truthy_number (Some 12) then Some 12 else None)"
    and 3: "getSalt recording_bcrypt (Given \<lparr> bcrypt_salt = Some [], bcrypt_rounds = Some 0 \<rparr>)
       = genSaltSync recording_bcrypt (if truthy_number (Some 0) then Some 0 else None)"
    using bcrypt_explicit_salt_ignores_rounds[of _ recording_bcrypt _ "Some 12" _ None]
      bcrypt_explicit_salt_ignores_rounds[of _ recording_bcrypt _ "Some 0" _ "Some []"]
    by blast+
  have e: "bcrypt_hash recording_bcrypt ''pw'' ''$2b$10$abcdefghijklmnopqrstuv''
      = (''pw'', ''$2b$10$abcdefghijklmnopqrstuv'')"
    and g: "genSaltSync recording_bcrypt (Some 12) = ''generated-rounds''"
      "genSaltSync recording_bcrypt None = ''generated-default''"
    by (simp_all add: recording_bcrypt_def)
  from 1 have a: "BcryptService_hash recording_bcrypt ''pw''
      (Given \<lparr> bcrypt_salt = Some ''$2b$10$abcdefghijklmnopqrstuv'', bcrypt_rounds = Some 12 \<rparr>)
     = bcrypt_hash recording_bcrypt ''pw'' ''$2b$10$abcdefghijklmnopqrstuv''"
    by (rule conjunct1)
  from a e have a': "BcryptService_hash recording_bcrypt ''pw''
      (Given \<lparr> bcrypt_salt = Some ''$2b$10$abcdefghijklmnopqrstuv'', bcrypt_rounds = Some 12 \<rparr>)
     = (''pw'', ''$2b$10$abcdefghijklmnopqrstuv'')"
    by (rule trans)
  from 1 have b: "BcryptService_hash recording_bcrypt ''pw''
      (Given \<lparr> bcrypt_salt = Some ''$2b$10$abcdefghijklmnopqrstuv'', bcrypt_rounds = Some 12 \<rparr>)
     = BcryptService_hash recording_bcrypt ''pw''
      (Given \<lparr> bcrypt_salt = Some ''$2b$10$abcdefghijklmnopqrstuv'', bcrypt_rounds = None \<rparr>)"
    by (rule conjunct2)
  from 2 g(1) have c: "getSalt recording_bcrypt (Given \<lparr> bcrypt_salt = None, bcrypt_rounds = Some 12 \<rparr>)
     = ''generated-rounds''"
    by (simp add: truthy_number_def)
  from 3 g(2) have d: "getSalt recording_bcrypt (Given \<lparr> bcrypt_salt = Some [], bcrypt_rounds = Some 0 \<rparr>)
     = ''generated-default''"
    by (simp add: truthy_number_def)
  show ?thesis using a' b c d by (intro conjI)
qed

text \<open>
  Claim C5 says that, for \<open>Argon2Service\<close>, a \<open>hash\<close> call without options applies
  the options of the constructor. The parameter's default \<open>{}\<close> replaces the missing
  argument first, so the library is called with \<open>{}\<close>; the branch for the constructor's
  options is reached with an explicit \<open>null\<close> only.
\<close>

theorem argon2_hash_ignores_constructor_options:
  "Argon2Service_hash argon2_hash (Argon2Service_new (Some own)) data Omitted
     = argon2_hash data (Some []) \<and>
   Argon2Service_hash argon2_hash (Argon2Service_new (Some own)) data Null
     = argon2_hash data (Some own) \<and>
   Argon2Service_hash recording_argon2 (Argon2Service_new (Some [(''timeCost'', 5)])) ''pw'' Omitted
     \<noteq> recording_argon2 ''pw'' (Some [(''timeCost'', 5)])"
  by (simp add: Argon2Service_hash_def Argon2Service_new_def recording_argon2_def)

text \<open>\<open>Pbkdf2Strategy\<close> does apply the options of its constructor, and the built-in
  defaults when the constructor received none.\<close>

lemma pbkdf2_precedence:
  "Pbkdf2Strategy_hash pbkdf2 base64 (Pbkdf2Strategy_new r (Some own)) data Omitted
     = map_sum id base64 (pbkdf2 data (salt own) (iterations own) (keylen own) (digest own))"
  "Pbkdf2Strategy_hash pbkdf2 base64 (Pbkdf2Strategy_new r None) data Omitted
     = map_sum id base64 (pbkdf2 data (Some r) (Some 1000) (Some 64) (Some ''sha256''))"
  by (auto simp: Pbkdf2Strategy_hash_def Pbkdf2Strategy_new_def Pbkdf2Strategy_getFinalOptions_def
      empty_options_def coalesce_def chain_def split: sum.splits)

lemma getFinalOptions_idem:
  "Pbkdf2Strategy_getFinalOptions this (Pbkdf2Strategy_getFinalOptions this options)
     = Pbkdf2Strategy_getFinalOptions this options"
  by (simp add: Pbkdf2Strategy_getFinalOptions_def coalesce_def split: option.splits)

lemma pbkdf2_hash_Given:
  "Pbkdf2Strategy_hash pbkdf2 base64 this data (Given options) =
     (let final = Pbkdf2Strategy_getFinalOptions this options in
      map_sum id base64 (pbkdf2 data (salt final) (iterations final) (keylen final) (digest final)))"
  by (simp add: Pbkdf2Strategy_hash_def Let_def split: sum.splits)

lemma options_copy:
  "\<lparr> salt = salt f, iterations = iterations f, keylen = keylen f, digest = digest f \<rparr>
     = (f :: 's Pbkdf2Options)"
  by simp

lemma pbkdf2_compare_Given:
  "Pbkdf2Strategy_compare pbkdf2 base64 this data hashed_value (Given options) =
     map_sum id (\<lambda>hashedData. hashedData = toString_base64 base64 hashed_value)
       (Pbkdf2Strategy_hash pbkdf2 base64 this data (Given options))"
  by (simp add: Pbkdf2Strategy_compare_def pbkdf2_hash_Given getFinalOptions_idem Let_def
      options_copy split: sum.splits)

text \<open>
  Claim C7. When \<open>hash(data, opts)\<close> returns \<open>h\<close>, \<open>compare(data, h, opts)\<close> with the
  same options returns \<open>true\<close>. The salt of a call is the salt the primitive receives,
  with the iterations, key length and digest of the constructor: when the keys the
  primitive derives for two salts differ, the two hashes differ (the encoding is
  injective).
\<close>

theorem pbkdf2_compare_roundtrip:
  "(\<forall>h. Pbkdf2Strategy_hash pbkdf2 base64 this data (Given opts) = Inr h \<longrightarrow>
        Pbkdf2Strategy_compare pbkdf2 base64 this data (Text h) (Given opts) = Inr True) \<and>
   (\<forall>k1 k2. inj base64 \<and>
        pbkdf2 data (Some s1) (chain (pbkdf2_options this) iterations)
          (chain (pbkdf2_options this) keylen) (chain (pbkdf2_options this) digest) = Inr k1 \<and>
        pbkdf2 data (Some s2) (chain (pbkdf2_options this) iterations)
          (chain (pbkdf2_options this) keylen) (chain (pbkdf2_options this) digest) = Inr k2 \<and>
        k1 \<noteq> k2 \<longrightarrow>
        Pbkdf2Strategy_hash pbkdf2 base64 this data (Given (salt_only s1))
          \<noteq> Pbkdf2Strategy_hash pbkdf2 base64 this data (Given (salt_only s2)))"
proof (intro conjI allI impI)
  fix h
  assume "Pbkdf2Strategy_hash pbkdf2 base64 this data (Given opts) = Inr h"
  then show "Pbkdf2Strategy_compare pbkdf2 base64 this data (Text h) (Given opts) = Inr True"
    by (simp add: pbkdf2_compare_Given)
next
  fix k1 k2
  assume a: "inj base64 \<and>
        pbkdf2 data (Some s1) (chain (pbkdf2_options this) iterations)
          (chain (pbkdf2_options this) keylen) (chain (pbkdf2_options this) digest) = Inr k1 \<and>
        pbkdf2 data (Some s2) (chain (pbkdf2_options this) iterations)
          (chain (pbkdf2_options this) keylen) (chain (pbkdf2_options this) digest) = Inr k2 \<and>
        k1 \<noteq> k2"
  have 1: "Pbkdf2Strategy_hash pbkdf2 base64 this data (Given (salt_only s1)) = Inr (base64 k1)"
    using a by (simp add: pbkdf2_hash_Given salt_only_def Pbkdf2Strategy_getFinalOptions_def
        coalesce_def)
  have 2: "Pbkdf2Strategy_hash pbkdf2 base64 this data (Given (salt_only s2)) = Inr (base64 k2)"
    using a by (simp add: pbkdf2_hash_Given salt_only_def Pbkdf2Strategy_getFinalOptions_def
        coalesce_def)
  have "base64 k1 \<noteq> base64 k2" using a by (auto dest: injD)
  with 1 2 show "Pbkdf2Strategy_hash pbkdf2 base64 this data (Given (salt_only s1))
          \<noteq> Pbkdf2Strategy_hash pbkdf2 base64 this data (Given (salt_only s2))"
    by simp
qed

theorem pbkdf2_compare_roundtrip_witness:
  "Pbkdf2Strategy_hash recording_pbkdf2 identity_encoding
      (Pbkdf2Strategy_new ''0123456789abcdef'' None) ''pw''
      (Given \<lparr> salt = Some ''s1'', iterations = Some 2000, keylen = Some 32,
               digest = Some ''sha512'' \<rparr>) = Inr ''pw|s1'' \<and>
   Pbkdf2Strategy_compare recording_pbkdf2 identity_encoding
      (Pbkdf2Strategy_new ''0123456789abcdef'' None) ''pw'' (Text ''pw|s1'')
      (Given \<lparr> salt = Some ''s1'', iterations = Some 2000, keylen = Some 32,
               digest = Some ''sha512'' \<rparr>) = Inr True \<and>
   Pbkdf2Strategy_hash recording_pbkdf2 identity_encoding
      (Pbkdf2Strategy_new ''0123456789abcdef'' None) ''pw'' (Given (salt_only ''s1''))
     \<noteq> Pbkdf2Strategy_hash recording_pbkdf2 identity_encoding
      (Pbkdf2Strategy_new ''0123456789abcdef'' None) ''pw'' (Given (salt_only ''s2''))"
proof -
  let ?svc = "Pbkdf2Strategy_new ''0123456789abcdef'' None :: string Pbkdf2Strategy"
  let ?opts = "\<lparr> salt = Some ''s1'', iterations = Some 2000, keylen = Some 32,
               digest = Some ''sha512'' \<rparr>"
  note rt = pbkdf2_compare_roundtrip[of recording_pbkdf2 identity_encoding ?svc "''pw''" ?opts
      "''s1''" "''s2''"]
  have h: "Pbkdf2Strategy_hash recording_pbkdf2 identity_encoding ?svc ''pw'' (Given ?opts)
      = Inr ''pw|s1''"
    by (simp add: Pbkdf2Strategy_hash_def Pbkdf2Strategy_getFinalOptions_def coalesce_def
        recording_pbkdf2_def identity_encoding_def)
  then have c: "Pbkdf2Strategy_compare recording_pbkdf2 identity_encoding ?svc ''pw''
      (Text ''pw|s1'') (Given ?opts) = Inr True"
    using rt by blast
  have "inj identity_encoding" by (simp add: inj_def identity_encoding_def)
  moreover have "recording_pbkdf2 ''pw'' (Some ''s1'') (chain (pbkdf2_options ?svc) iterations)
          (chain (pbkdf2_options ?svc) keylen) (chain (pbkdf2_options ?svc) digest) = Inr ''pw|s1''"
    by (simp add: recording_pbkdf2_def)
  moreover have "recording_pbkdf2 ''pw'' (Some ''s2'') (chain (pbkdf2_options ?svc) iterations)
          (chain (pbkdf2_options ?svc) keylen) (chain (pbkdf2_options ?svc) digest) = Inr ''pw|s2''"
    by (simp add: recording_pbkdf2_def)
  moreover have "''pw|s1'' \<noteq> ''pw|s2''" by simp
  ultimately have d: "Pbkdf2Strategy_hash recording_pbkdf2 identity_encoding ?svc ''pw''
        (Given (salt_only ''s1''))
     \<noteq> Pbkdf2Strategy_hash recording_pbkdf2 identity_encoding ?svc ''pw''
        (Given (salt_only ''s2''))"
    using rt by blast
  show ?thesis using h c d by (intro conjI)
qed

text \<open>
  Claim C6 says that \<open>generateKeyPair()\<close> without options succeeds with the defaults,
  and that a supplied \<open>modulusLength\<close> overrides 2048. Without options the call throws
  a TypeError, and a supplied \<open>modulusLength\<close> is not read: the library is called with
  2048. The two encodings are taken from the call, then from the constructor, then
  from the defaults.
\<close>

theorem generateKeyPair_without_options_throws:
  "generateKeyPair keygen this Omitted = Inl TypeError \<and>
   generateKeyPair keygen this (Given \<lparr> modulusLength = Some 4096, publicKeyEncoding = None,
       privateKeyEncoding = None \<rparr>)
     = generateKeyPair keygen this (Given \<lparr> modulusLength = None, publicKeyEncoding = None,
       privateKeyEncoding = None \<rparr>) \<and>
   generateKeyPair keygen \<lparr> rsa_options = None \<rparr>
       (Given \<lparr> modulusLength = Some 4096, publicKeyEncoding = None, privateKeyEncoding = None \<rparr>)
     = keygen ''rsa''
         \<lparr> modulusLength = Some 2048,
           publicKeyEncoding = Some \<lparr> encoding_type = ''spki'', format = ''pem'' \<rparr>,
           privateKeyEncoding = Some \<lparr> encoding_type = ''pkcs8'', format = ''pem'' \<rparr> \<rparr>"
  by (simp add: generateKeyPair_def RsaService_getFinalOptions_def coalesce_def chain_def)

text \<open>The two encodings of a call do override the defaults.\<close>

lemma rsa_encodings_precedence:
  "generateKeyPair keygen this
       (Given \<lparr> modulusLength = n, publicKeyEncoding = Some pub, privateKeyEncoding = Some priv \<rparr>)
     = keygen ''rsa''
         \<lparr> modulusLength = Some 2048, publicKeyEncoding = Some pub,
           privateKeyEncoding = Some priv \<rparr>"
  by (simp add: generateKeyPair_def RsaService_getFinalOptions_def coalesce_def)

end
